theory Spec2Isabelle
  imports Main "HOL-Library.AList" "HOL-Library.Multiset"
begin

section \<open>togglplanapi: an authenticated client with bounded retry\<close>

text \<open>
  The package \<^verbatim>\<open>togglplanapi\<close> (file \<^verbatim>\<open>togglplanapi.go\<close>) is embedded function by
  function. Go's \<^verbatim>\<open>(string, error)\<close> results are pairs of a string and an optional error,
  the client behind the pointer \<^verbatim>\<open>pa\<close> is passed in and returned, and everything the
  package does to the outside (HTTP attempts, sleeping between them) is appended to an
  explicit \<open>world\<close>.
\<close>

subsection \<open>Data\<close>

record togglPlanApi =
  username :: string
  password :: string
  clientId :: string
  clientSecret :: string
  bearerToken :: string

record authDetails =
  Type :: string
  Credential :: string

text \<open>
  A JSON value as \<^verbatim>\<open>encoding/json\<close> reads it: keys and strings are unescaped, a number is
  kept as its literal, and an object keeps its members in the order of the text (a key may
  occur more than once).
\<close>

datatype json =
    JNull
  | JBool bool
  | JNumber string
  | JString string
  | JArray "json list"
  | JObject "(string \<times> json) list"

text \<open>
  Go errors. \<open>errors_New\<close> is \<^verbatim>\<open>errors.New(msg)\<close>; \<open>external\<close> is an error value
  made outside the package (by the transport, the URL parser, the body reader or the JSON
  scanner), known by its message only; \<open>giving_up n cause\<close> is the error with which
  go-retryablehttp's \<^verbatim>\<open>Do\<close> ends after \<open>n\<close> attempts that all asked for a retry;
  \<open>UnmarshalTypeError v\<close> is \<^verbatim>\<open>encoding/json\<close>'s error for a JSON value \<open>v\<close> that does
  not fit the Go value it is decoded into.
\<close>

datatype error =
    errors_New string
  | external string
  | giving_up int "error option"
  | UnmarshalTypeError json

type_synonym result = "string \<times> error option"

text \<open>
  An HTTP response as far as the package reads it: the status code, what
  \<^verbatim>\<open>io.ReadAll(resp.Body)\<close> gives (an error or the bytes), and the wait in nanoseconds
  that go-retryablehttp takes from a \<^verbatim>\<open>Retry-After\<close> header, when the response has one it
  can read.
\<close>

record response =
  StatusCode :: int
  Body :: "error + string"
  RetryAfter :: "int option"

text \<open>One HTTP attempt ends in a transport error or in a response.\<close>

datatype outcome = Failed error | Response response

text \<open>
  The request \<^verbatim>\<open>doRequest\<close> hands to \<^verbatim>\<open>client.Do\<close>: method, URL, body, and its
  \<^verbatim>\<open>Header\<close>, a map from header names to the value last set under each name.
\<close>

record request =
  req_method :: string
  req_url :: string
  req_body :: string
  req_Header :: "string \<rightharpoonup> string"

text \<open>
  The world: every HTTP attempt made so far with its outcome, and every backoff wait
  slept so far (\<^verbatim>\<open>time.Duration\<close>, nanoseconds), both in order.
\<close>

record world =
  exchanges :: "(request \<times> outcome) list"
  slept :: "int list"

text \<open>
  A Go \<^verbatim>\<open>map[string]string\<close> is the list of its entries, with pairwise distinct keys.
  What the package takes from its platform: the network (the outcome of an attempt may
  depend on everything that happened before), \<^verbatim>\<open>http.NewRequest\<close>'s check of method and
  URL, \<^verbatim>\<open>http.StatusText\<close>, \<^verbatim>\<open>base64.StdEncoding.EncodeToString\<close>, the scanner of
  \<^verbatim>\<open>encoding/json\<close> (a syntax error, or the value the text denotes), and the order in
  which a \<^verbatim>\<open>range\<close> loop visits the entries of a map the package has built, which Go
  leaves open: some arrangement of the entries.
\<close>

record platform =
  RoundTrip :: "world \<Rightarrow> request \<Rightarrow> outcome"
  NewRequest_error :: "string \<Rightarrow> string \<Rightarrow> error option"
  StatusText :: "int \<Rightarrow> string"
  EncodeToString :: "string \<Rightarrow> string"
  ParseJSON :: "string \<Rightarrow> error + json"
  RangeOrder :: "(string \<times> string) list \<Rightarrow> (string \<times> string) list"

subsection \<open>The standard library: header names and JSON decoding\<close>

text \<open>
  \<^verbatim>\<open>textproto.CanonicalMIMEHeaderKey\<close>, under which \<^verbatim>\<open>http.Header.Set\<close> stores a
  value: a key made of token bytes only gets an upper-case letter first and after every
  hyphen and lower-case letters elsewhere; any other key is left as it is.
\<close>

definition validHeaderFieldByte :: "char \<Rightarrow> bool" where
  "validHeaderFieldByte c =
     ((48 \<le> (of_char c :: nat) \<and> (of_char c :: nat) \<le> 57) \<or>
      (65 \<le> (of_char c :: nat) \<and> (of_char c :: nat) \<le> 90) \<or>
      (97 \<le> (of_char c :: nat) \<and> (of_char c :: nat) \<le> 122) \<or>
      (of_char c :: nat) \<in> {33, 35, 36, 37, 38, 39, 42, 43, 45, 46, 94, 95, 96, 124, 126})"

definition toUpper :: "char \<Rightarrow> char" where
  "toUpper c =
     (if 97 \<le> (of_char c :: nat) \<and> (of_char c :: nat) \<le> 122
      then char_of ((of_char c :: nat) - 32) else c)"

definition toLower :: "char \<Rightarrow> char" where
  "toLower c =
     (if 65 \<le> (of_char c :: nat) \<and> (of_char c :: nat) \<le> 90
      then char_of ((of_char c :: nat) + 32) else c)"

fun canonical :: "bool \<Rightarrow> string \<Rightarrow> string" where
  "canonical upper [] = []"
| "canonical upper (c # cs) =
     (let c' = (if upper then toUpper c else toLower c)
      in c' # canonical (c' = CHR ''-'') cs)"

definition CanonicalMIMEHeaderKey :: "string \<Rightarrow> string" where
  "CanonicalMIMEHeaderKey s = (if list_all validHeaderFieldByte s then canonical True s else s)"

definition Header_Set :: "request \<Rightarrow> string \<Rightarrow> string \<Rightarrow> request" where
  "Header_Set req key value =
     req\<lparr>req_Header := (req_Header req)(CanonicalMIMEHeaderKey key \<mapsto> value)\<rparr>"

text \<open>
  \<^verbatim>\<open>json.Unmarshal\<close> into a \<^verbatim>\<open>TokenResponse\<close>, the struct of line 180 with the one
  field \<^verbatim>\<open>AccessToken string `json:"access_token"`\<close>. An object key selects the field
  when it equals the name \<^verbatim>\<open>access_token\<close> under Unicode simple case folding; the name
  is ASCII, so besides letters of either case a matching key can only hold U+017F (long
  s) for an \<^verbatim>\<open>s\<close> and U+212A (Kelvin sign) for the \<^verbatim>\<open>k\<close>. \<open>folded\<close> maps a UTF-8
  key to upper case with these two runes replaced.
\<close>

record TokenResponse =
  AccessToken :: string

fun folded :: "string \<Rightarrow> string" where
  "folded (a # b # c # cs) =
     (if a = CHR 0xE2 \<and> b = CHR 0x84 \<and> c = CHR 0xAA then CHR ''K'' # folded cs
      else if a = CHR 0xC5 \<and> b = CHR 0xBF then CHR ''S'' # folded (c # cs)
      else toUpper a # folded (b # c # cs))"
| "folded [a, b] =
     (if a = CHR 0xC5 \<and> b = CHR 0xBF then [CHR ''S''] else toUpper a # folded [b])"
| "folded [a] = [toUpper a]"
| "folded [] = []"

definition selects_access_token :: "string \<Rightarrow> bool" where
  "selects_access_token key = (folded key = ''ACCESS_TOKEN'')"

text \<open>
  The members of an object are decoded in order. A string under a selecting key is
  stored in the field, \<^verbatim>\<open>null\<close> leaves the field as it is, any other value is a type
  error, of which the first is kept while decoding goes on; other keys are skipped.
\<close>

fun object :: "(string \<times> json) list \<Rightarrow> error option \<times> TokenResponse \<Rightarrow> error option \<times> TokenResponse" where
  "object [] (savedError, v) = (savedError, v)"
| "object ((key, item) # members) (savedError, v) =
     (if selects_access_token key
      then (case item of
              JString s \<Rightarrow> object members (savedError, v\<lparr>AccessToken := s\<rparr>)
            | JNull \<Rightarrow> object members (savedError, v)
            | _ \<Rightarrow>
                object members
                  (case savedError of None \<Rightarrow> Some (UnmarshalTypeError item) | Some e \<Rightarrow> Some e, v))
      else object members (savedError, v))"

text \<open>
  A text that is not JSON is a syntax error; \<^verbatim>\<open>null\<close> changes nothing; an object is
  decoded member by member; any other value is a type error.
\<close>

definition Unmarshal :: "platform \<Rightarrow> string \<Rightarrow> TokenResponse \<Rightarrow> error option \<times> TokenResponse" where
  "Unmarshal P data v =
     (case ParseJSON P data of
        Inl err \<Rightarrow> (Some err, v)
      | Inr JNull \<Rightarrow> (None, v)
      | Inr (JObject members) \<Rightarrow> object members (None, v)
      | Inr item \<Rightarrow> (Some (UnmarshalTypeError item), v))"

subsection \<open>The dependency go-retryablehttp\<close>

text \<open>
  The fields of \<^verbatim>\<open>retryablehttp.Client\<close> that \<^verbatim>\<open>doRequest\<close> sets. \<open>RetryMax\<close> is the
  greatest number of retries after the first attempt; the waits are nanoseconds.
\<close>

record client =
  CheckRetry :: "outcome \<Rightarrow> bool \<times> error option"
  RetryMax :: int
  RetryWaitMin :: int
  RetryWaitMax :: int

definition Second :: int where
  "Second = 1000000000"

text \<open>
  \<^verbatim>\<open>DefaultBackoff\<close>, the backoff \<^verbatim>\<open>NewClient\<close> installs and \<^verbatim>\<open>doRequest\<close> keeps: a
  429 or 503 response with a readable \<^verbatim>\<open>Retry-After\<close> is waited for as long as it says;
  otherwise the wait is \<open>2 ^ attemptNum * min\<close>, replaced by \<open>max\<close> when it is larger.
  The library computes the product in floating point and takes \<open>max\<close> also when the
  product does not fit a \<^verbatim>\<open>time.Duration\<close>; with \<open>min\<close> one second the product is
  exact whenever it fits, and one that does not fit is larger than \<open>max\<close>, so integers
  give the same wait.
\<close>

definition DefaultBackoff :: "int \<Rightarrow> int \<Rightarrow> int \<Rightarrow> outcome \<Rightarrow> int" where
  "DefaultBackoff mn mx attemptNum out =
     (case (case out of
              Failed e \<Rightarrow> None
            | Response resp \<Rightarrow>
                if StatusCode resp = 429 \<or> StatusCode resp = 503 then RetryAfter resp else None) of
        Some sleep \<Rightarrow> sleep
      | None \<Rightarrow>
          (let sleep = 2 ^ nat attemptNum * mn
           in if sleep > mx then mx else sleep))"

text \<open>
  The loop of \<^verbatim>\<open>Client.Do\<close>: attempt, ask \<open>CheckRetry\<close>, stop when it says no or
  when \<open>RetryMax - i \<le> 0\<close>, otherwise sleep the backoff and go round with \<open>i + 1\<close>. It
  returns the last outcome, the last answer of \<open>CheckRetry\<close> and the number of attempts.
\<close>

function Do_loop ::
  "platform \<Rightarrow> client \<Rightarrow> request \<Rightarrow> int \<Rightarrow> world \<Rightarrow> (outcome \<times> bool \<times> error option \<times> int) \<times> world" where
  "Do_loop P c req i w =
     (let out = RoundTrip P w req;
          w1 = w\<lparr>exchanges := exchanges w @ [(req, out)]\<rparr>;
          shouldRetry = fst (CheckRetry c out);
          checkErr = snd (CheckRetry c out)
      in if \<not> shouldRetry then ((out, shouldRetry, checkErr, i + 1), w1)
         else if RetryMax c - i \<le> 0 then ((out, shouldRetry, checkErr, i + 1), w1)
         else Do_loop P c req (i + 1)
                (w1\<lparr>slept := slept w1 @ [DefaultBackoff (RetryWaitMin c) (RetryWaitMax c) i out]\<rparr>))"
  by pat_completeness auto
termination
  by (relation "measure (\<lambda>(P, c, req, i, w). nat (RetryMax c - i))") auto

declare Do_loop.simps [simp del]

text \<open>
  \<^verbatim>\<open>Client.Do\<close> with no \<^verbatim>\<open>ErrorHandler\<close>: the response is handed back only when the
  last attempt had no transport error and \<open>CheckRetry\<close> neither asked for a retry nor
  gave an error; otherwise the caller gets no response but the giving-up error.
\<close>

definition Do :: "platform \<Rightarrow> client \<Rightarrow> request \<Rightarrow> world \<Rightarrow> (error + response) \<times> world" where
  "Do P c req w =
     (case Do_loop P c req 0 w of
        ((out, shouldRetry, checkErr, attempt), w') \<Rightarrow>
          (case out of
             Response resp \<Rightarrow>
               if checkErr = None \<and> \<not> shouldRetry then (Inr resp, w')
               else (Inl (giving_up attempt checkErr), w')
           | Failed doErr \<Rightarrow>
               (Inl (giving_up attempt (case checkErr of Some e \<Rightarrow> Some e | None \<Rightarrow> Some doErr)), w')))"

subsection \<open>togglplanapi.go\<close>

definition New :: "string \<Rightarrow> string \<Rightarrow> string \<Rightarrow> string \<Rightarrow> string \<Rightarrow> togglPlanApi" where
  "New username' password' clientId' clientSecret' bearerToken' =
     \<lparr>username = username', password = password', clientId = clientId',
      clientSecret = clientSecret', bearerToken = bearerToken'\<rparr>"

text \<open>
  \<^verbatim>\<open>mergeMaps\<close>. Each argument is given by its entries in the order its loop visits
  them (any order). Both loops assign into \<^verbatim>\<open>mergedMap\<close>; an assignment
  \<^verbatim>\<open>mergedMap[key] = value\<close> replaces the entry under \<open>key\<close> or adds one.
\<close>

definition mergeMaps :: "(string \<times> string) list \<Rightarrow> (string \<times> string) list \<Rightarrow> (string \<times> string) list" where
  "mergeMaps map_1 map_2 =
     fold (\<lambda>(key, value) mergedMap. AList.update key value mergedMap) map_2
       (fold (\<lambda>(key, value) mergedMap. AList.update key value mergedMap) map_1 [])"

text \<open>\<^verbatim>\<open>fmt.Sprint\<close> of an \<^verbatim>\<open>int\<close>: its decimal digits, with a minus sign below zero.\<close>

function digits :: "nat \<Rightarrow> string" where
  "digits n = (if n < 10 then [''0123456789'' ! n] else digits (n div 10) @ [''0123456789'' ! (n mod 10)])"
  by pat_completeness auto
termination
  by (relation "measure id") auto

declare digits.simps [simp del]

definition Sprint :: "int \<Rightarrow> string" where
  "Sprint i = (if i < 0 then CHR ''-'' # digits (nat (- i)) else digits (nat i))"

text \<open>The closure assigned to \<^verbatim>\<open>client.CheckRetry\<close> (lines 119-133).\<close>

definition CheckRetry_closure :: "outcome \<Rightarrow> bool \<times> error option" where
  "CheckRetry_closure out =
     (case out of
        Failed err \<Rightarrow> (True, Some err)
      | Response resp \<Rightarrow>
          if StatusCode resp = 429 then (True, None)
          else if StatusCode resp = 401 then (False, None)
          else if StatusCode resp \<ge> 500 \<and> StatusCode resp \<noteq> 501 then (True, None)
          else (False, None))"

text \<open>
  \<^verbatim>\<open>doRequest\<close>. \<^verbatim>\<open>NewRequest\<close> makes an empty method \<^verbatim>\<open>GET\<close>. The loop of lines
  144-146 sets every entry of \<^verbatim>\<open>headers\<close> on the request, in the order the platform
  ranges over the map, and lines 148-150 set \<^verbatim>\<open>Authorization\<close> after it.
\<close>

definition doRequest ::
  "platform \<Rightarrow> world \<Rightarrow> togglPlanApi \<Rightarrow> string \<Rightarrow> string \<Rightarrow> string \<Rightarrow> (string \<times> string) list \<Rightarrow>
     authDetails option \<Rightarrow> result \<times> world" where
  "doRequest P w pa url method body headers auth =
     (let client = \<lparr>CheckRetry = CheckRetry_closure, RetryMax = 5,
                    RetryWaitMin = 1 * Second, RetryWaitMax = 30 * Second\<rparr>
      in case NewRequest_error P method url of
           Some err \<Rightarrow> ((''Error building request'', Some err), w)
         | None \<Rightarrow>
             (let req0 = \<lparr>req_method = (if method = '''' then ''GET'' else method),
                          req_url = url, req_body = body, req_Header = Map.empty\<rparr>;
                  req1 = fold (\<lambda>(headerKey, headerValue) req. Header_Set req headerKey headerValue)
                           (RangeOrder P headers) req0;
                  req = (case auth of
                           None \<Rightarrow> req1
                         | Some a \<Rightarrow> Header_Set req1 ''Authorization'' (Type a @ '' '' @ Credential a))
              in case Do P client req w of
                   (Inl err, w') \<Rightarrow> ((''Error running request'', Some err), w')
                 | (Inr resp, w') \<Rightarrow>
                     if StatusCode resp = 401 then ((''Unauthorized'', Some (errors_New ''401'')), w')
                     else if StatusCode resp < 200 \<or> StatusCode resp \<ge> 300
                     then ((Sprint (StatusCode resp), Some (errors_New (StatusText P (StatusCode resp)))), w')
                     else (case Body resp of
                             Inl err \<Rightarrow> ((''Error reading response'', Some err), w')
                           | Inr bodyBytes \<Rightarrow> ((bodyBytes, None), w'))))"

definition getToken :: "platform \<Rightarrow> world \<Rightarrow> togglPlanApi \<Rightarrow> result \<times> world" where
  "getToken P w pa =
     (let headers = [(''Content-Type'', ''application/x-www-form-urlencoded'')];
          auth = \<lparr>Type = ''Basic'',
                  Credential = EncodeToString P (clientId pa @ '':'' @ clientSecret pa)\<rparr>;
          body = ''grant_type=password&username='' @ username pa @ ''&password='' @ password pa
      in case doRequest P w pa ''https://api.plan.toggl.com/api/v5/authenticate/token'' ''POST''
                body headers (Some auth) of
           ((result, None), w') \<Rightarrow>
             (case Unmarshal P result \<lparr>AccessToken = ''''\<rparr> of
                (Some err, tokenResponse) \<Rightarrow>
                  ((''Couldn't parse authentication attempt response'', Some err), w')
              | (None, tokenResponse) \<Rightarrow>
                  if AccessToken tokenResponse = ''''
                  then (('''', Some (errors_New ''access_token not found in response'')), w')
                  else ((AccessToken tokenResponse, None), w'))
         | ((result, Some err), w') \<Rightarrow> ((''Couldn't request for a new bearer token'', Some err), w'))"

definition GetToken :: "togglPlanApi \<Rightarrow> string" where
  "GetToken pa = bearerToken pa"

text \<open>
  \<^verbatim>\<open>Request\<close> returns its Go result, the client as the call leaves it, and the world.
  The caller's map \<^verbatim>\<open>headers\<close> is ranged over by \<^verbatim>\<open>mergeMaps\<close>, so it is given by its
  entries in that order.
\<close>

definition Request ::
  "platform \<Rightarrow> world \<Rightarrow> togglPlanApi \<Rightarrow> string \<Rightarrow> string \<Rightarrow> string \<Rightarrow> (string \<times> string) list \<Rightarrow>
     result \<times> togglPlanApi \<times> world" where
  "Request P w pa url method body headers =
     (let fetched =
            (if bearerToken pa = ''''
             then (case getToken P w pa of
                     ((result, None), w1) \<Rightarrow> Inr (pa\<lparr>bearerToken := result\<rparr>, w1)
                   | ((result, Some err), w1) \<Rightarrow> Inl ((''Couldn't authenticate'', Some err), pa, w1))
             else Inr (pa, w))
      in case fetched of
           Inl early \<Rightarrow> early
         | Inr (pa1, w1) \<Rightarrow>
             (let defaultHeaders = [(''Content-Type'', ''application/json'')];
                  finalHeaders = mergeMaps defaultHeaders headers;
                  auth = \<lparr>Type = ''Bearer'', Credential = bearerToken pa1\<rparr>
              in case doRequest P w1 pa1 url method body finalHeaders (Some auth) of
                   (r, w2) \<Rightarrow> (r, pa1, w2)))"

subsection \<open>Auxiliary notions\<close>

text \<open>The value a request carries under \<^verbatim>\<open>Authorization\<close>.\<close>

definition req_authorization :: "request \<Rightarrow> string option" where
  "req_authorization req = req_Header req ''Authorization''"

text \<open>The request \<^verbatim>\<open>doRequest\<close> builds from its arguments.\<close>

definition built_request ::
  "platform \<Rightarrow> string \<Rightarrow> string \<Rightarrow> string \<Rightarrow> (string \<times> string) list \<Rightarrow> authDetails option \<Rightarrow> request" where
  "built_request P url method body headers auth =
     (let req0 = \<lparr>req_method = (if method = '''' then ''GET'' else method),
                  req_url = url, req_body = body, req_Header = Map.empty\<rparr>;
          req1 = fold (\<lambda>(headerKey, headerValue) req. Header_Set req headerKey headerValue)
                   (RangeOrder P headers) req0
      in case auth of
           None \<Rightarrow> req1
         | Some a \<Rightarrow> Header_Set req1 ''Authorization'' (Type a @ '' '' @ Credential a))"

text \<open>
  The waits of one run of the loop that starts at round \<open>i\<close> and makes the attempts
  \<open>xs\<close>: one backoff after every attempt but the last.
\<close>

definition waits :: "client \<Rightarrow> int \<Rightarrow> (request \<times> outcome) list \<Rightarrow> int list" where
  "waits c i xs =
     map (\<lambda>k. DefaultBackoff (RetryWaitMin c) (RetryWaitMax c) (i + int k) (snd (xs ! k)))
       [0..<length xs - 1]"

text \<open>
  The request \<^verbatim>\<open>getToken\<close> hands to \<^verbatim>\<open>doRequest\<close> and the call itself, and the same
  for the call \<^verbatim>\<open>Request\<close> makes for a client that holds a token.
\<close>

definition token_request :: "platform \<Rightarrow> togglPlanApi \<Rightarrow> request" where
  "token_request P pa =
     built_request P ''https://api.plan.toggl.com/api/v5/authenticate/token'' ''POST''
       (''grant_type=password&username='' @ username pa @ ''&password='' @ password pa)
       [(''Content-Type'', ''application/x-www-form-urlencoded'')]
       (Some \<lparr>Type = ''Basic'',
              Credential = EncodeToString P (clientId pa @ '':'' @ clientSecret pa)\<rparr>)"

definition token_call :: "platform \<Rightarrow> world \<Rightarrow> togglPlanApi \<Rightarrow> result \<times> world" where
  "token_call P w pa =
     doRequest P w pa ''https://api.plan.toggl.com/api/v5/authenticate/token'' ''POST''
       (''grant_type=password&username='' @ username pa @ ''&password='' @ password pa)
       [(''Content-Type'', ''application/x-www-form-urlencoded'')]
       (Some \<lparr>Type = ''Basic'',
              Credential = EncodeToString P (clientId pa @ '':'' @ clientSecret pa)\<rparr>)"

definition api_request ::
  "platform \<Rightarrow> togglPlanApi \<Rightarrow> string \<Rightarrow> string \<Rightarrow> string \<Rightarrow> (string \<times> string) list \<Rightarrow> request" where
  "api_request P pa url method body headers =
     built_request P url method body (mergeMaps [(''Content-Type'', ''application/json'')] headers)
       (Some \<lparr>Type = ''Bearer'', Credential = bearerToken pa\<rparr>)"

definition api_call ::
  "platform \<Rightarrow> world \<Rightarrow> togglPlanApi \<Rightarrow> string \<Rightarrow> string \<Rightarrow> string \<Rightarrow> (string \<times> string) list \<Rightarrow>
     result \<times> world" where
  "api_call P w pa url method body headers =
     doRequest P w pa url method body (mergeMaps [(''Content-Type'', ''application/json'')] headers)
       (Some \<lparr>Type = ''Bearer'', Credential = bearerToken pa\<rparr>)"

text \<open>The exchanges a step adds to the world \<open>w\<close>, read off the world it leaves.\<close>

definition added :: "world \<Rightarrow> world \<Rightarrow> (request \<times> outcome) list" where
  "added w w' = drop (length (exchanges w)) (exchanges w')"

text \<open>
  A JSON value holds a token when it is an object with a non-empty string under a key
  that selects the field \<^verbatim>\<open>access_token\<close>.
\<close>

definition holds_token :: "json \<Rightarrow> bool" where
  "holds_token item =
     (case item of
        JObject members \<Rightarrow>
          list_ex (\<lambda>(key, v). selects_access_token key \<and>
                     (case v of JString s \<Rightarrow> s \<noteq> '''' | _ \<Rightarrow> False)) members
      | _ \<Rightarrow> False)"

subsection \<open>Scenarios\<close>

text \<open>
  Concrete platforms to run the package on. \<open>plain st\<close> is a response with status
  \<open>st\<close> and body \<^verbatim>\<open>ok\<close>, \<open>json_reply s\<close> a 200 response with body \<open>s\<close>. A
  \<open>scripted\<close> network answers the \<open>n\<close>-th attempt ever made with the \<open>n\<close>-th
  outcome of its script and every later attempt with \<open>after\<close>. \<open>scenario net\<close> is a
  platform over the network \<open>net\<close> that accepts every method and URL, knows some
  status texts, the base64 encoding of \<^verbatim>\<open>id:secret\<close>, and the JSON values of four
  bodies (any other text is a syntax error to it), and that ranges over a map in the
  order of its entries; \<open>reversed P\<close> is \<open>P\<close> ranging in the opposite order. \<open>w0\<close> is
  the world in which nothing has happened yet, \<open>pa0\<close> a client without a token.
\<close>

definition plain :: "int \<Rightarrow> outcome" where
  "plain st = Response \<lparr>StatusCode = st, Body = Inr ''ok'', RetryAfter = None\<rparr>"

definition json_reply :: "string \<Rightarrow> outcome" where
  "json_reply s = Response \<lparr>StatusCode = 200, Body = Inr s, RetryAfter = None\<rparr>"

definition scripted :: "outcome list \<Rightarrow> outcome \<Rightarrow> world \<Rightarrow> request \<Rightarrow> outcome" where
  "scripted outs after w req =
     (if length (exchanges w) < length outs then outs ! length (exchanges w) else after)"

definition scenario :: "(world \<Rightarrow> request \<Rightarrow> outcome) \<Rightarrow> platform" where
  "scenario net =
     \<lparr>RoundTrip = net,
      NewRequest_error = (\<lambda>method url. None),
      StatusText = (\<lambda>code. if code = 404 then ''Not Found''
                            else if code = 500 then ''Internal Server Error''
                            else if code = 503 then ''Service Unavailable'' else ''''),
      EncodeToString = (\<lambda>s. if s = ''id:secret'' then ''aWQ6c2VjcmV0'' else ''''),
      ParseJSON = (\<lambda>s. if s = ''{\"access_token\":\"T\"}'' then Inr (JObject [(''access_token'', JString ''T'')])
                        else if s = ''not json'' then Inl (external ''invalid character 'o' in literal null (expecting 'u')'')
                        else if s = ''{\"ACCESS_TOKEN\":\"T\"}'' then Inr (JObject [(''ACCESS_TOKEN'', JString ''T'')])
                        else if s = ''{\"access_token\":5}'' then Inr (JObject [(''access_token'', JNumber ''5'')])
                        else if s = ''{}'' then Inr (JObject [])
                        else Inl (external ''unexpected end of JSON input'')),
      RangeOrder = (\<lambda>m. m)\<rparr>"


definition w0 :: world where
  "w0 = \<lparr>exchanges = [], slept = []\<rparr>"

definition pa0 :: togglPlanApi where
  "pa0 = New ''user'' ''pass'' ''id'' ''secret'' ''''"

subsection \<open>Form data\<close>

text \<open>
  The fields a reader takes from an \<^verbatim>\<open>application/x-www-form-urlencoded\<close> text that has
  no percent escape and no plus sign: the parts between ampersands, each split at its first
  equals sign.
\<close>

fun split_amp :: "string \<Rightarrow> string list" where
  "split_amp [] = [[]]"
| "split_amp (c # cs) =
     (case split_amp cs of
        [] \<Rightarrow> [[c]]
      | part # parts \<Rightarrow> if c = CHR ''&'' then [] # part # parts else (c # part) # parts)"

definition form_fields :: "string \<Rightarrow> (string \<times> string) list" where
  "form_fields s =
     map (\<lambda>part. (takeWhile (\<lambda>c. c \<noteq> CHR ''='') part, drop 1 (dropWhile (\<lambda>c. c \<noteq> CHR ''='') part)))
       (split_amp s)"

section \<open>Properties\<close>

subsection \<open>The retry loop\<close>

lemma Do_loop_stop:
  "\<not> (fst (CheckRetry c (RoundTrip P w req)) \<and> i < RetryMax c) \<Longrightarrow>
   Do_loop P c req i w =
     ((RoundTrip P w req, fst (CheckRetry c (RoundTrip P w req)),
       snd (CheckRetry c (RoundTrip P w req)), i + 1),
      w\<lparr>exchanges := exchanges w @ [(req, RoundTrip P w req)]\<rparr>)"
  by (subst Do_loop.simps) (auto simp: Let_def)

lemma Do_loop_retry:
  "fst (CheckRetry c (RoundTrip P w req)) \<Longrightarrow> i < RetryMax c \<Longrightarrow>
   Do_loop P c req i w =
     Do_loop P c req (i + 1)
       (w\<lparr>exchanges := exchanges w @ [(req, RoundTrip P w req)],
          slept := slept w @ [DefaultBackoff (RetryWaitMin c) (RetryWaitMax c) i (RoundTrip P w req)]\<rparr>)"
  by (subst Do_loop.simps) (auto simp: Let_def)

lemma waits_Cons:
  "xs \<noteq> [] \<Longrightarrow>
   waits c i (x # xs) = DefaultBackoff (RetryWaitMin c) (RetryWaitMax c) i (snd x) # waits c (i + 1) xs"
proof -
  assume "xs \<noteq> []"
  then obtain n where n: "length xs = Suc n" by (cases xs) auto
  have "[0..<Suc n] = 0 # map Suc [0..<n]"
    by (simp add: upt_conv_Cons map_Suc_upt del: upt_Suc)
  then show ?thesis
    by (simp add: waits_def n comp_def add.commute add.left_commute del: upt_Suc)
qed

lemma Do_loop_trace:
  "\<exists>xs. xs \<noteq> [] \<and>
     exchanges (snd (Do_loop P c req i w)) = exchanges w @ xs \<and>
     fst (Do_loop P c req i w) =
       (snd (last xs), fst (CheckRetry c (snd (last xs))), snd (CheckRetry c (snd (last xs))),
        i + int (length xs)) \<and>
     (\<forall>k<length xs. fst (xs ! k) = req \<and>
        ((Suc k < length xs) = (fst (CheckRetry c (snd (xs ! k))) \<and> i + int k < RetryMax c))) \<and>
     slept (snd (Do_loop P c req i w)) = slept w @ waits c i xs"
proof (induction P c req i w rule: Do_loop.induct)
  case (1 P c req i w)
  let ?out = "RoundTrip P w req"
  show ?case
  proof (cases "fst (CheckRetry c ?out) \<and> i < RetryMax c")
    case False
    have eq: "Do_loop P c req i w =
        ((?out, fst (CheckRetry c ?out), snd (CheckRetry c ?out), i + 1),
         w\<lparr>exchanges := exchanges w @ [(req, ?out)]\<rparr>)"
      using False by (rule Do_loop_stop)
    show ?thesis
      by (rule exI[of _ "[(req, ?out)]"]) (use False in \<open>simp add: eq waits_def\<close>)
  next
    case True
    let ?w2 = "w\<lparr>exchanges := exchanges w @ [(req, ?out)],
                 slept := slept w @ [DefaultBackoff (RetryWaitMin c) (RetryWaitMax c) i ?out]\<rparr>"
    have eq: "Do_loop P c req i w = Do_loop P c req (i + 1) ?w2"
      using True by (simp add: Do_loop_retry)
    from True have "\<exists>xs. xs \<noteq> [] \<and>
       exchanges (snd (Do_loop P c req (i + 1) ?w2)) = exchanges ?w2 @ xs \<and>
       fst (Do_loop P c req (i + 1) ?w2) =
         (snd (last xs), fst (CheckRetry c (snd (last xs))), snd (CheckRetry c (snd (last xs))),
          (i + 1) + int (length xs)) \<and>
       (\<forall>k<length xs. fst (xs ! k) = req \<and>
          ((Suc k < length xs) = (fst (CheckRetry c (snd (xs ! k))) \<and> (i + 1) + int k < RetryMax c))) \<and>
       slept (snd (Do_loop P c req (i + 1) ?w2)) = slept ?w2 @ waits c (i + 1) xs"
      using "1.IH"[OF refl refl refl refl] by simp
    then obtain xs where xs: "xs \<noteq> []"
      "exchanges (snd (Do_loop P c req (i + 1) ?w2)) = exchanges ?w2 @ xs"
      "fst (Do_loop P c req (i + 1) ?w2) =
         (snd (last xs), fst (CheckRetry c (snd (last xs))), snd (CheckRetry c (snd (last xs))),
          (i + 1) + int (length xs))"
      "\<And>k. k < length xs \<Longrightarrow> fst (xs ! k) = req \<and>
          ((Suc k < length xs) = (fst (CheckRetry c (snd (xs ! k))) \<and> (i + 1) + int k < RetryMax c))"
      "slept (snd (Do_loop P c req (i + 1) ?w2)) = slept ?w2 @ waits c (i + 1) xs"
      by blast
    let ?ys = "(req, ?out) # xs"
    have a: "exchanges (snd (Do_loop P c req i w)) = exchanges w @ ?ys"
      by (simp add: eq xs(2))
    have b: "fst (Do_loop P c req i w) =
       (snd (last ?ys), fst (CheckRetry c (snd (last ?ys))), snd (CheckRetry c (snd (last ?ys))),
        i + int (length ?ys))"
      using xs(1) by (simp add: eq xs(3))
    have c: "fst (?ys ! k) = req \<and>
        ((Suc k < length ?ys) = (fst (CheckRetry c (snd (?ys ! k))) \<and> i + int k < RetryMax c))"
      if "k < length ?ys" for k
    proof (cases k)
      case 0
      then show ?thesis using True xs(1) by (cases xs) auto
    next
      case (Suc j)
      with that have "j < length xs" by simp
      from xs(4)[OF this] show ?thesis by (simp add: Suc add.commute add.left_commute)
    qed
    have d: "slept (snd (Do_loop P c req i w)) = slept w @ waits c i ?ys"
      by (simp add: eq xs(5) waits_Cons[OF xs(1)])
    show ?thesis
      by (rule exI[of _ ?ys]) (use a b c d in blast)
  qed
qed

lemma CheckRetry_closure_eq:
  "CheckRetry_closure out =
     (case out of
        Failed err \<Rightarrow> (True, Some err)
      | Response resp \<Rightarrow>
          (StatusCode resp = 429 \<or> (500 \<le> StatusCode resp \<and> StatusCode resp \<noteq> 501), None))"
  by (auto simp: CheckRetry_closure_def split: outcome.splits)

lemma doRequest_of_Do_loop:
  assumes ok: "NewRequest_error P method url = None"
    and dl: "Do_loop P \<lparr>CheckRetry = CheckRetry_closure, RetryMax = 5,
                RetryWaitMin = 1 * Second, RetryWaitMax = 30 * Second\<rparr>
              (built_request P url method body headers auth)
              0 w = ((out, fst (CheckRetry_closure out), snd (CheckRetry_closure out), n), w')"
  shows "doRequest P w pa url method body headers auth =
       ((case out of
          Failed err \<Rightarrow> (''Error running request'', Some (giving_up n (Some err)))
        | Response resp \<Rightarrow>
            if fst (CheckRetry_closure (Response resp))
            then (''Error running request'', Some (giving_up n None))
            else if StatusCode resp = 401 then (''Unauthorized'', Some (errors_New ''401''))
            else if StatusCode resp < 200 \<or> StatusCode resp \<ge> 300
            then (Sprint (StatusCode resp), Some (errors_New (StatusText P (StatusCode resp))))
            else (case Body resp of
                    Inl err \<Rightarrow> (''Error reading response'', Some err)
                  | Inr bodyBytes \<Rightarrow> (bodyBytes, None))), w')"
proof (cases out)
  case (Failed err)
  then show ?thesis
    using ok dl by (simp add: doRequest_def built_request_def Let_def Do_def CheckRetry_closure_eq)
next
  case (Response resp)
  show ?thesis
  proof (cases "Body resp")
    case (Inl err)
    then show ?thesis
      using ok dl Response by (simp add: doRequest_def built_request_def Let_def Do_def CheckRetry_closure_eq)
  next
    case (Inr bodyBytes)
    then show ?thesis
      using ok dl Response by (simp add: doRequest_def built_request_def Let_def Do_def CheckRetry_closure_eq)
  qed
qed


lemma doRequest_trace:
  assumes ok: "NewRequest_error P method url = None"
  shows "\<exists>xs. xs \<noteq> [] \<and>
     exchanges (snd (doRequest P w pa url method body headers auth)) = exchanges w @ xs \<and>
     (\<forall>k<length xs.
        fst (xs ! k) =
          (built_request P url method body headers auth) \<and>
        ((Suc k < length xs) = (fst (CheckRetry_closure (snd (xs ! k))) \<and> k < 5))) \<and>
     slept (snd (doRequest P w pa url method body headers auth)) =
       slept w @ map (\<lambda>k. DefaultBackoff (1 * Second) (30 * Second) (int k) (snd (xs ! k))) [0..<length xs - 1] \<and>
     fst (doRequest P w pa url method body headers auth) =
       (case snd (last xs) of
          Failed err \<Rightarrow> (''Error running request'', Some (giving_up (int (length xs)) (Some err)))
        | Response resp \<Rightarrow>
            if fst (CheckRetry_closure (Response resp))
            then (''Error running request'', Some (giving_up (int (length xs)) None))
            else if StatusCode resp = 401 then (''Unauthorized'', Some (errors_New ''401''))
            else if StatusCode resp < 200 \<or> StatusCode resp \<ge> 300
            then (Sprint (StatusCode resp), Some (errors_New (StatusText P (StatusCode resp))))
            else (case Body resp of
                    Inl err \<Rightarrow> (''Error reading response'', Some err)
                  | Inr bodyBytes \<Rightarrow> (bodyBytes, None)))"
proof -
  define c where "c = \<lparr>CheckRetry = CheckRetry_closure, RetryMax = 5,
             RetryWaitMin = 1 * Second, RetryWaitMax = 30 * Second\<rparr>"
  define req where "req = built_request P url method body headers auth"
  define D where "D = Do_loop P c req 0 w"
  define R where "R = doRequest P w pa url method body headers auth"
  have c_sel: "CheckRetry c = CheckRetry_closure" "RetryMax c = 5"
    "RetryWaitMin c = 1 * Second" "RetryWaitMax c = 30 * Second"
    by (simp_all add: c_def)
  obtain xs where xs: "xs \<noteq> []"
     "exchanges (snd D) = exchanges w @ xs"
     "fst D =
       (snd (last xs), fst (CheckRetry c (snd (last xs))), snd (CheckRetry c (snd (last xs))),
        0 + int (length xs))"
     "\<forall>k<length xs. fst (xs ! k) = req \<and>
        ((Suc k < length xs) = (fst (CheckRetry c (snd (xs ! k))) \<and> 0 + int k < RetryMax c))"
     "slept (snd D) = slept w @ waits c 0 xs"
    unfolding D_def using Do_loop_trace[of P c req 0 w] by blast
  have "D = (fst D, snd D)" by simp
  then have dl: "D = ((snd (last xs), fst (CheckRetry_closure (snd (last xs))),
                   snd (CheckRetry_closure (snd (last xs))), int (length xs)), snd D)"
    by (simp only: xs(3) c_sel add_0)
  have eq: "R =
       ((case snd (last xs) of
          Failed err \<Rightarrow> (''Error running request'', Some (giving_up (int (length xs)) (Some err)))
        | Response resp \<Rightarrow>
            if fst (CheckRetry_closure (Response resp))
            then (''Error running request'', Some (giving_up (int (length xs)) None))
            else if StatusCode resp = 401 then (''Unauthorized'', Some (errors_New ''401''))
            else if StatusCode resp < 200 \<or> StatusCode resp \<ge> 300
            then (Sprint (StatusCode resp), Some (errors_New (StatusText P (StatusCode resp))))
            else (case Body resp of
                    Inl err \<Rightarrow> (''Error reading response'', Some err)
                  | Inr bodyBytes \<Rightarrow> (bodyBytes, None))), snd D)"
    unfolding R_def
    by (rule doRequest_of_Do_loop[OF ok]) (use dl in \<open>simp only: D_def c_def req_def\<close>)
  have k_eq: "\<forall>k<length xs. fst (xs ! k) = req \<and>
        ((Suc k < length xs) = (fst (CheckRetry_closure (snd (xs ! k))) \<and> k < 5))"
  proof (intro allI impI)
    fix k assume "k < length xs"
    with xs(4) have "fst (xs ! k) = req \<and>
        ((Suc k < length xs) = (fst (CheckRetry c (snd (xs ! k))) \<and> 0 + int k < RetryMax c))"
      by blast
    moreover have "(0 + int k < RetryMax c) = (k < 5)"
      by (simp add: c_sel)
    ultimately show "fst (xs ! k) = req \<and>
        ((Suc k < length xs) = (fst (CheckRetry_closure (snd (xs ! k))) \<and> k < 5))"
      by (simp only: c_sel)
  qed
  have w_eq: "waits c 0 xs =
      map (\<lambda>k. DefaultBackoff (1 * Second) (30 * Second) (int k) (snd (xs ! k))) [0..<length xs - 1]"
    by (simp add: waits_def c_sel)
  have e1: "exchanges (snd R) = exchanges w @ xs"
    by (simp only: eq snd_conv xs(2))
  have e2: "slept (snd R) =
       slept w @ map (\<lambda>k. DefaultBackoff (1 * Second) (30 * Second) (int k) (snd (xs ! k))) [0..<length xs - 1]"
    by (simp only: eq snd_conv xs(5) w_eq)
  have e3: "fst R =
       (case snd (last xs) of
          Failed err \<Rightarrow> (''Error running request'', Some (giving_up (int (length xs)) (Some err)))
        | Response resp \<Rightarrow>
            if fst (CheckRetry_closure (Response resp))
            then (''Error running request'', Some (giving_up (int (length xs)) None))
            else if StatusCode resp = 401 then (''Unauthorized'', Some (errors_New ''401''))
            else if StatusCode resp < 200 \<or> StatusCode resp \<ge> 300
            then (Sprint (StatusCode resp), Some (errors_New (StatusText P (StatusCode resp))))
            else (case Body resp of
                    Inl err \<Rightarrow> (''Error reading response'', Some err)
                  | Inr bodyBytes \<Rightarrow> (bodyBytes, None)))"
    by (simp only: eq fst_conv)
  have "xs \<noteq> [] \<and> exchanges (snd R) = exchanges w @ xs \<and>
     (\<forall>k<length xs. fst (xs ! k) = req \<and>
        ((Suc k < length xs) = (fst (CheckRetry_closure (snd (xs ! k))) \<and> k < 5))) \<and>
     slept (snd R) =
       slept w @ map (\<lambda>k. DefaultBackoff (1 * Second) (30 * Second) (int k) (snd (xs ! k))) [0..<length xs - 1] \<and>
     fst R =
       (case snd (last xs) of
          Failed err \<Rightarrow> (''Error running request'', Some (giving_up (int (length xs)) (Some err)))
        | Response resp \<Rightarrow>
            if fst (CheckRetry_closure (Response resp))
            then (''Error running request'', Some (giving_up (int (length xs)) None))
            else if StatusCode resp = 401 then (''Unauthorized'', Some (errors_New ''401''))
            else if StatusCode resp < 200 \<or> StatusCode resp \<ge> 300
            then (Sprint (StatusCode resp), Some (errors_New (StatusText P (StatusCode resp))))
            else (case Body resp of
                    Inl err \<Rightarrow> (''Error reading response'', Some err)
                  | Inr bodyBytes \<Rightarrow> (bodyBytes, None)))"
    by (rule conjI[OF xs(1) conjI[OF e1 conjI[OF k_eq conjI[OF e2 e3]]]])
  then show ?thesis
    unfolding R_def req_def by (rule exI[of _ xs])
qed


lemma doRequest_attempts:
  assumes ok: "NewRequest_error P method url = None"
    and xs: "exchanges (snd (doRequest P w pa url method body headers auth)) = exchanges w @ xs"
  shows "xs \<noteq> []"
    and "\<forall>k<length xs.
        fst (xs ! k) =
          (built_request P url method body headers auth) \<and>
        ((Suc k < length xs) = (fst (CheckRetry_closure (snd (xs ! k))) \<and> k < 5))"
    and "slept (snd (doRequest P w pa url method body headers auth)) =
       slept w @ map (\<lambda>k. DefaultBackoff (1 * Second) (30 * Second) (int k) (snd (xs ! k))) [0..<length xs - 1]"
    and "fst (doRequest P w pa url method body headers auth) =
       (case snd (last xs) of
          Failed err \<Rightarrow> (''Error running request'', Some (giving_up (int (length xs)) (Some err)))
        | Response resp \<Rightarrow>
            if fst (CheckRetry_closure (Response resp))
            then (''Error running request'', Some (giving_up (int (length xs)) None))
            else if StatusCode resp = 401 then (''Unauthorized'', Some (errors_New ''401''))
            else if StatusCode resp < 200 \<or> StatusCode resp \<ge> 300
            then (Sprint (StatusCode resp), Some (errors_New (StatusText P (StatusCode resp))))
            else (case Body resp of
                    Inl err \<Rightarrow> (''Error reading response'', Some err)
                  | Inr bodyBytes \<Rightarrow> (bodyBytes, None)))"
proof -
  define R where "R = doRequest P w pa url method body headers auth"
  obtain ys where ys: "ys \<noteq> []" "exchanges (snd R) = exchanges w @ ys"
    "\<forall>k<length ys.
        fst (ys ! k) =
          (built_request P url method body headers auth) \<and>
        ((Suc k < length ys) = (fst (CheckRetry_closure (snd (ys ! k))) \<and> k < 5))"
    "slept (snd R) =
       slept w @ map (\<lambda>k. DefaultBackoff (1 * Second) (30 * Second) (int k) (snd (ys ! k))) [0..<length ys - 1]"
    "fst R =
       (case snd (last ys) of
          Failed err \<Rightarrow> (''Error running request'', Some (giving_up (int (length ys)) (Some err)))
        | Response resp \<Rightarrow>
            if fst (CheckRetry_closure (Response resp))
            then (''Error running request'', Some (giving_up (int (length ys)) None))
            else if StatusCode resp = 401 then (''Unauthorized'', Some (errors_New ''401''))
            else if StatusCode resp < 200 \<or> StatusCode resp \<ge> 300
            then (Sprint (StatusCode resp), Some (errors_New (StatusText P (StatusCode resp))))
            else (case Body resp of
                    Inl err \<Rightarrow> (''Error reading response'', Some err)
                  | Inr bodyBytes \<Rightarrow> (bodyBytes, None)))"
    unfolding R_def using doRequest_trace[OF ok, of w pa body headers auth] by (elim exE conjE)
  from xs ys(2) have "ys = xs" by (simp only: R_def same_append_eq)
  with ys show "xs \<noteq> []"
    and "\<forall>k<length xs.
        fst (xs ! k) =
          (built_request P url method body headers auth) \<and>
        ((Suc k < length xs) = (fst (CheckRetry_closure (snd (xs ! k))) \<and> k < 5))"
    and "slept (snd (doRequest P w pa url method body headers auth)) =
       slept w @ map (\<lambda>k. DefaultBackoff (1 * Second) (30 * Second) (int k) (snd (xs ! k))) [0..<length xs - 1]"
    and "fst (doRequest P w pa url method body headers auth) =
       (case snd (last xs) of
          Failed err \<Rightarrow> (''Error running request'', Some (giving_up (int (length xs)) (Some err)))
        | Response resp \<Rightarrow>
            if fst (CheckRetry_closure (Response resp))
            then (''Error running request'', Some (giving_up (int (length xs)) None))
            else if StatusCode resp = 401 then (''Unauthorized'', Some (errors_New ''401''))
            else if StatusCode resp < 200 \<or> StatusCode resp \<ge> 300
            then (Sprint (StatusCode resp), Some (errors_New (StatusText P (StatusCode resp))))
            else (case Body resp of
                    Inl err \<Rightarrow> (''Error reading response'', Some err)
                  | Inr bodyBytes \<Rightarrow> (bodyBytes, None)))"
    unfolding R_def by (simp_all only: not_False_eq_True)
qed

lemma doRequest_extends:
  "\<exists>xs. exchanges (snd (doRequest P w pa url method body headers auth)) = exchanges w @ xs"
proof (cases "NewRequest_error P method url")
  case None
  from doRequest_trace[OF this, of w pa body headers auth] show ?thesis by (elim exE conjE) (rule exI)
next
  case (Some err)
  then have "snd (doRequest P w pa url method body headers auth) = w"
    by (simp add: doRequest_def)
  then show ?thesis by simp
qed

lemma doRequest_rejected:
  "NewRequest_error P method url = Some err \<Longrightarrow>
   doRequest P w pa url method body headers auth = ((''Error building request'', Some err), w)"
  by (simp add: doRequest_def)

subsection \<open>The retrying executor\<close>

text \<open>
  C1 (as amended). While \<^verbatim>\<open>http.NewRequest\<close> accepts method and URL, \<^verbatim>\<open>doRequest\<close>
  makes between one and six attempts: the first and at most five retries
  (\<^verbatim>\<open>RetryMax = 5\<close> counts retries), with one backoff wait per retry. After attempt number
  \<open>k\<close> (from 0) a further attempt follows exactly when that attempt ended in a
  transport error, a 429, or a status of 500 or above other than 501, and fewer than five
  retries have been made. Responses 500, 500, 200 give three attempts (two retries) and
  the body of the 200; a server that always answers 500 gets six attempts, after which
  \<^verbatim>\<open>doRequest\<close> fails with the giving-up error.
\<close>

theorem doRequest_retry_policy:
  assumes ok: "NewRequest_error P method url = None"
    and xs: "exchanges (snd (doRequest P w pa url method body headers auth)) = exchanges w @ xs"
  shows "1 \<le> length xs \<and> length xs \<le> 6 \<and>
     length (slept (snd (doRequest P w pa url method body headers auth))) =
       length (slept w) + (length xs - 1) \<and>
     (\<forall>k<length xs.
        (Suc k < length xs) =
          ((case snd (xs ! k) of
              Failed err \<Rightarrow> True
            | Response resp \<Rightarrow>
                StatusCode resp = 429 \<or> (500 \<le> StatusCode resp \<and> StatusCode resp \<noteq> 501)) \<and>
           k < 5)) \<and>
     length (exchanges (snd (doRequest (scenario (scripted [plain 500, plain 500, plain 200] (plain 200)))
        w0 pa0 ''https://api.plan.toggl.com/api/v5/me'' ''GET'' [] [] None))) = 3 \<and>
     fst (doRequest (scenario (scripted [plain 500, plain 500, plain 200] (plain 200)))
        w0 pa0 ''https://api.plan.toggl.com/api/v5/me'' ''GET'' [] [] None) = (''ok'', None) \<and>
     length (exchanges (snd (doRequest (scenario (\<lambda>w req. plain 500))
        w0 pa0 ''https://api.plan.toggl.com/api/v5/me'' ''GET'' [] [] None))) = 6 \<and>
     fst (doRequest (scenario (\<lambda>w req. plain 500))
        w0 pa0 ''https://api.plan.toggl.com/api/v5/me'' ''GET'' [] [] None) =
       (''Error running request'', Some (giving_up 6 None))"
proof -
  note A = doRequest_attempts[OF ok xs]
  have retry: "(Suc k < length xs) =
          ((case snd (xs ! k) of
              Failed err \<Rightarrow> True
            | Response resp \<Rightarrow>
                StatusCode resp = 429 \<or> (500 \<le> StatusCode resp \<and> StatusCode resp \<noteq> 501)) \<and>
           k < 5)" if "k < length xs" for k
  proof -
    from A(2) that have "(Suc k < length xs) = (fst (CheckRetry_closure (snd (xs ! k))) \<and> k < 5)"
      by blast
    then show ?thesis
      by (simp add: CheckRetry_closure_eq split: outcome.splits)
  qed
  have le: "length xs \<le> 6"
  proof (rule ccontr)
    assume "\<not> length xs \<le> 6"
    then have "5 < length xs" "Suc 5 < length xs" by simp_all
    with retry[of 5] show False by simp
  qed
  have ge: "1 \<le> length xs"
    using A(1) by (cases xs) simp_all
  have sl: "length (slept (snd (doRequest P w pa url method body headers auth))) =
       length (slept w) + (length xs - 1)"
    by (simp add: A(3))
  have ex1: "length (exchanges (snd (doRequest (scenario (scripted [plain 500, plain 500, plain 200] (plain 200)))
        w0 pa0 ''https://api.plan.toggl.com/api/v5/me'' ''GET'' [] [] None))) = 3"
    by code_simp
  have ex2: "fst (doRequest (scenario (scripted [plain 500, plain 500, plain 200] (plain 200)))
        w0 pa0 ''https://api.plan.toggl.com/api/v5/me'' ''GET'' [] [] None) = (''ok'', None)"
    by code_simp
  have ex3: "length (exchanges (snd (doRequest (scenario (\<lambda>w req. plain 500))
        w0 pa0 ''https://api.plan.toggl.com/api/v5/me'' ''GET'' [] [] None))) = 6"
    by code_simp
  have ex4: "fst (doRequest (scenario (\<lambda>w req. plain 500))
        w0 pa0 ''https://api.plan.toggl.com/api/v5/me'' ''GET'' [] [] None) =
       (''Error running request'', Some (giving_up 6 None))"
    by code_simp
  from retry have all: "\<forall>k<length xs.
        (Suc k < length xs) =
          ((case snd (xs ! k) of
              Failed err \<Rightarrow> True
            | Response resp \<Rightarrow>
                StatusCode resp = 429 \<or> (500 \<le> StatusCode resp \<and> StatusCode resp \<noteq> 501)) \<and>
           k < 5)"
    by blast
  show ?thesis
    by (rule conjI[OF ge conjI[OF le conjI[OF sl conjI[OF all conjI[OF ex1 conjI[OF ex2 conjI[OF ex3 ex4]]]]]]])
qed

theorem doRequest_retry_policy_witness:
  "NewRequest_error (scenario (scripted [plain 500, plain 500, plain 200] (plain 200)))
     ''GET'' ''https://api.plan.toggl.com/api/v5/me'' = None \<and>
   length (exchanges (snd (doRequest (scenario (scripted [plain 500, plain 500, plain 200] (plain 200)))
        w0 pa0 ''https://api.plan.toggl.com/api/v5/me'' ''GET'' [] [] None))) = 3 \<and>
   length (slept (snd (doRequest (scenario (scripted [plain 500, plain 500, plain 200] (plain 200)))
        w0 pa0 ''https://api.plan.toggl.com/api/v5/me'' ''GET'' [] [] None))) = 2"
proof -
  define P where "P = scenario (scripted [plain 500, plain 500, plain 200] (plain 200))"
  define R where "R = doRequest P w0 pa0 ''https://api.plan.toggl.com/api/v5/me'' ''GET'' [] [] None"
  have h1: "NewRequest_error P ''GET'' ''https://api.plan.toggl.com/api/v5/me'' = None"
    by (simp add: P_def scenario_def)
  have h2: "exchanges (snd R) = exchanges w0 @ exchanges (snd R)"
    by (simp add: w0_def)
  have n: "length (exchanges (snd R)) = 3"
    unfolding R_def P_def by code_simp
  have s0: "length (slept w0) = 0"
    by (simp add: w0_def)
  from doRequest_retry_policy[OF h1 h2[unfolded R_def]]
  have "length (slept (snd R)) = length (slept w0) + (length (exchanges (snd R)) - 1)"
    unfolding R_def by (elim conjE)
  with n s0 have "length (slept (snd R)) = 2" by simp
  with h1 n show ?thesis unfolding R_def P_def by simp
qed

text \<open>
  The claim as stated (at most five attempts, failure after exactly five) fails on the
  server that always answers 500: the sixth attempt is made. And a response with status
  600, which is neither a 429 nor a 5xx, is retried too: the check is \<^verbatim>\<open>>= 500\<close>.
\<close>

theorem doRequest_all_500_counterexample:
  "length (exchanges (snd (doRequest (scenario (\<lambda>w req. plain 500))
        w0 pa0 ''https://api.plan.toggl.com/api/v5/me'' ''GET'' [] [] None))) = 6 \<and>
   \<not> length (exchanges (snd (doRequest (scenario (\<lambda>w req. plain 500))
        w0 pa0 ''https://api.plan.toggl.com/api/v5/me'' ''GET'' [] [] None))) \<le> 5 \<and>
   length (exchanges (snd (doRequest (scenario (scripted [plain 600] (plain 200)))
        w0 pa0 ''https://api.plan.toggl.com/api/v5/me'' ''GET'' [] [] None))) = 2"
  by code_simp

text \<open>
  C2. A 401 is never retried: whichever attempt of \<^verbatim>\<open>doRequest\<close> receives a 401
  response is the last one, and the result is the string \<^verbatim>\<open>Unauthorized\<close> with the
  error \<^verbatim>\<open>errors.New("401")\<close>.
\<close>

theorem doRequest_401_terminal:
  assumes ok: "NewRequest_error P method url = None"
    and xs: "exchanges (snd (doRequest P w pa url method body headers auth)) = exchanges w @ xs"
    and k: "k < length xs"
    and resp: "snd (xs ! k) = Response resp"
    and st: "StatusCode resp = 401"
  shows "Suc k = length xs \<and>
     fst (doRequest P w pa url method body headers auth) = (''Unauthorized'', Some (errors_New ''401''))"
proof -
  note A = doRequest_attempts[OF ok xs]
  have nr: "\<not> fst (CheckRetry_closure (Response resp))"
    using st by (simp add: CheckRetry_closure_def)
  from A(2) k have "(Suc k < length xs) = (fst (CheckRetry_closure (snd (xs ! k))) \<and> k < 5)"
    by blast
  with nr resp k have len: "Suc k = length xs" by simp
  then have "k = length xs - 1" by simp
  then have "last xs = xs ! k"
    using A(1) by (simp add: last_conv_nth)
  then have "snd (last xs) = Response resp" using resp by simp
  with A(4) nr st
  have "fst (doRequest P w pa url method body headers auth) = (''Unauthorized'', Some (errors_New ''401''))"
    by simp
  with len show ?thesis by simp
qed

theorem doRequest_401_terminal_witness:
  "NewRequest_error (scenario (scripted [plain 500, plain 401] (plain 200)))
     ''GET'' ''https://api.plan.toggl.com/api/v5/me'' = None \<and>
   snd (exchanges (snd (doRequest (scenario (scripted [plain 500, plain 401] (plain 200)))
        w0 pa0 ''https://api.plan.toggl.com/api/v5/me'' ''GET'' [] [] None)) ! 1) =
     Response \<lparr>StatusCode = 401, Body = Inr ''ok'', RetryAfter = None\<rparr> \<and>
   Suc 1 = length (exchanges (snd (doRequest (scenario (scripted [plain 500, plain 401] (plain 200)))
        w0 pa0 ''https://api.plan.toggl.com/api/v5/me'' ''GET'' [] [] None))) \<and>
   fst (doRequest (scenario (scripted [plain 500, plain 401] (plain 200)))
        w0 pa0 ''https://api.plan.toggl.com/api/v5/me'' ''GET'' [] [] None) =
     (''Unauthorized'', Some (errors_New ''401''))"
proof -
  define P where "P = scenario (scripted [plain 500, plain 401] (plain 200))"
  define R where "R = doRequest P w0 pa0 ''https://api.plan.toggl.com/api/v5/me'' ''GET'' [] [] None"
  have h1: "NewRequest_error P ''GET'' ''https://api.plan.toggl.com/api/v5/me'' = None"
    by (simp add: P_def scenario_def)
  have h2: "exchanges (snd R) = exchanges w0 @ exchanges (snd R)"
    by (simp add: w0_def)
  have h3: "1 < length (exchanges (snd R))"
    unfolding R_def P_def by code_simp
  have h4: "snd (exchanges (snd R) ! 1) = Response \<lparr>StatusCode = 401, Body = Inr ''ok'', RetryAfter = None\<rparr>"
    unfolding R_def P_def by code_simp
  have h5: "StatusCode \<lparr>StatusCode = 401, Body = Inr ''ok'', RetryAfter = None\<rparr> = 401"
    by simp
  from doRequest_401_terminal[OF h1 h2[unfolded R_def] h3[unfolded R_def] h4[unfolded R_def] h5]
  have "Suc 1 = length (exchanges (snd R)) \<and> fst R = (''Unauthorized'', Some (errors_New ''401''))"
    unfolding R_def .
  with h1 h4 show ?thesis unfolding R_def P_def by simp
qed

lemma doRequest_retry_iff:
  assumes ok: "NewRequest_error P method url = None"
    and xs: "exchanges (snd (doRequest P w pa url method body headers auth)) = exchanges w @ xs"
    and k: "k < length xs"
  shows "(Suc k < length xs) = (fst (CheckRetry_closure (snd (xs ! k))) \<and> k < 5)"
  using doRequest_attempts(2)[OF ok xs] k by blast

lemma doRequest_at_most_six:
  assumes ok: "NewRequest_error P method url = None"
    and xs: "exchanges (snd (doRequest P w pa url method body headers auth)) = exchanges w @ xs"
  shows "length xs \<le> 6"
proof (rule ccontr)
  assume "\<not> length xs \<le> 6"
  then have "5 < length xs" "Suc 5 < length xs" by simp_all
  with doRequest_retry_iff[OF ok xs, of 5] show False by simp
qed

text \<open>
  C8 (as amended). When the last attempt of \<^verbatim>\<open>doRequest\<close> ended in a response whose
  status is outside 200-299 and is not 401, there are two cases. If the retry check does
  not ask to retry that status (it is not 429 and not 500 or above other than 501),
  \<^verbatim>\<open>Do\<close> hands the response back and \<^verbatim>\<open>doRequest\<close> returns the status code in
  decimal with an error whose message is \<^verbatim>\<open>http.StatusText\<close> of the code. If the status
  is one the check retries, the response was the sixth, the retry budget is spent,
  \<^verbatim>\<open>Do\<close> returns no response, and \<^verbatim>\<open>doRequest\<close> returns
  \<^verbatim>\<open>Error running request\<close> with the giving-up error.
\<close>

theorem doRequest_status_failure:
  assumes ok: "NewRequest_error P method url = None"
    and xs: "exchanges (snd (doRequest P w pa url method body headers auth)) = exchanges w @ xs"
    and resp: "snd (last xs) = Response resp"
    and st: "StatusCode resp \<noteq> 401" "StatusCode resp < 200 \<or> 300 \<le> StatusCode resp"
  shows "fst (doRequest P w pa url method body headers auth) =
       (if StatusCode resp = 429 \<or> (500 \<le> StatusCode resp \<and> StatusCode resp \<noteq> 501)
        then (''Error running request'', Some (giving_up 6 None))
        else (Sprint (StatusCode resp), Some (errors_New (StatusText P (StatusCode resp))))) \<and>
     (if StatusCode resp = 429 \<or> (500 \<le> StatusCode resp \<and> StatusCode resp \<noteq> 501)
      then length xs = 6 else 1 \<le> length xs \<and> length xs \<le> 6)"
proof -
  note A = doRequest_attempts[OF ok xs]
  define n where "n = length xs - 1"
  from A(1) have n: "length xs = Suc n" "last xs = xs ! n"
    by (simp_all add: n_def last_conv_nth)
  have "(Suc n < length xs) = (fst (CheckRetry_closure (snd (xs ! n))) \<and> n < 5)"
    by (rule doRequest_retry_iff[OF ok xs]) (simp add: n(1))
  with n resp have stop: "\<not> (fst (CheckRetry_closure (Response resp)) \<and> n < 5)"
    by simp
  have le: "length xs \<le> 6"
    by (rule doRequest_at_most_six[OF ok xs])
  have cr: "fst (CheckRetry_closure (Response resp)) =
      (StatusCode resp = 429 \<or> (500 \<le> StatusCode resp \<and> StatusCode resp \<noteq> 501))"
    by (simp add: CheckRetry_closure_eq)
  show ?thesis
  proof (cases "StatusCode resp = 429 \<or> (500 \<le> StatusCode resp \<and> StatusCode resp \<noteq> 501)")
    case True
    with cr stop have "\<not> n < 5" by simp
    with le n(1) have len: "length xs = 6" by simp
    from A(4) resp True cr len
    have "fst (doRequest P w pa url method body headers auth) =
        (''Error running request'', Some (giving_up 6 None))"
      by simp
    with True len show ?thesis by simp
  next
    case False
    from A(4) resp False cr st
    have "fst (doRequest P w pa url method body headers auth) =
        (Sprint (StatusCode resp), Some (errors_New (StatusText P (StatusCode resp))))"
      by simp
    with False le n(1) show ?thesis by auto
  qed
qed

theorem doRequest_status_failure_witness:
  "NewRequest_error (scenario (scripted [plain 500, plain 404] (plain 200)))
     ''GET'' ''https://api.plan.toggl.com/api/v5/me'' = None \<and>
   snd (last (exchanges (snd (doRequest (scenario (scripted [plain 500, plain 404] (plain 200)))
        w0 pa0 ''https://api.plan.toggl.com/api/v5/me'' ''GET'' [] [] None)))) =
     Response \<lparr>StatusCode = 404, Body = Inr ''ok'', RetryAfter = None\<rparr> \<and>
   fst (doRequest (scenario (scripted [plain 500, plain 404] (plain 200)))
        w0 pa0 ''https://api.plan.toggl.com/api/v5/me'' ''GET'' [] [] None) =
     (''404'', Some (errors_New ''Not Found'')) \<and>
   snd (last (exchanges (snd (doRequest (scenario (\<lambda>w req. plain 503))
        w0 pa0 ''https://api.plan.toggl.com/api/v5/me'' ''GET'' [] [] None)))) =
     Response \<lparr>StatusCode = 503, Body = Inr ''ok'', RetryAfter = None\<rparr> \<and>
   fst (doRequest (scenario (\<lambda>w req. plain 503))
        w0 pa0 ''https://api.plan.toggl.com/api/v5/me'' ''GET'' [] [] None) =
     (''Error running request'', Some (giving_up 6 None)) \<and>
   length (exchanges (snd (doRequest (scenario (\<lambda>w req. plain 503))
        w0 pa0 ''https://api.plan.toggl.com/api/v5/me'' ''GET'' [] [] None))) = 6"
proof -
  define Q where "Q = scenario (\<lambda>w req. plain 503)"
  define S where "S = doRequest Q w0 pa0 ''https://api.plan.toggl.com/api/v5/me'' ''GET'' [] [] None"
  define busy where "busy = \<lparr>StatusCode = 503, Body = Inr ''ok'', RetryAfter = None\<rparr>"
  have k1: "NewRequest_error Q ''GET'' ''https://api.plan.toggl.com/api/v5/me'' = None"
    by (simp add: Q_def scenario_def)
  have k2: "exchanges (snd S) = exchanges w0 @ exchanges (snd S)"
    by (simp add: w0_def)
  have k3: "snd (last (exchanges (snd S))) = Response busy"
    unfolding S_def Q_def busy_def by code_simp
  have k4: "StatusCode busy \<noteq> 401" "StatusCode busy < 200 \<or> 300 \<le> StatusCode busy"
    by (simp_all add: busy_def)
  have k5: "StatusCode busy = 429 \<or> (500 \<le> StatusCode busy \<and> StatusCode busy \<noteq> 501)"
    by (simp add: busy_def)
  from doRequest_status_failure[OF k1 k2[unfolded S_def] k3[unfolded S_def] k4] k5
  have exhausted: "fst S = (''Error running request'', Some (giving_up 6 None))"
    "length (exchanges (snd S)) = 6"
    unfolding S_def by simp_all
  define P where "P = scenario (scripted [plain 500, plain 404] (plain 200))"
  define R where "R = doRequest P w0 pa0 ''https://api.plan.toggl.com/api/v5/me'' ''GET'' [] [] None"
  define resp where "resp = \<lparr>StatusCode = 404, Body = Inr ''ok'', RetryAfter = None\<rparr>"
  have h1: "NewRequest_error P ''GET'' ''https://api.plan.toggl.com/api/v5/me'' = None"
    by (simp add: P_def scenario_def)
  have h2: "exchanges (snd R) = exchanges w0 @ exchanges (snd R)"
    by (simp add: w0_def)
  have h3: "snd (last (exchanges (snd R))) = Response resp"
    unfolding R_def P_def resp_def by code_simp
  have h4: "StatusCode resp \<noteq> 401" "StatusCode resp < 200 \<or> 300 \<le> StatusCode resp"
    by (simp_all add: resp_def)
  have v: "Sprint (StatusCode resp) = ''404''" "StatusText P (StatusCode resp) = ''Not Found''"
    unfolding resp_def P_def by code_simp+
  have nr: "\<not> (StatusCode resp = 429 \<or> (500 \<le> StatusCode resp \<and> StatusCode resp \<noteq> 501))"
    by (simp add: resp_def)
  from doRequest_status_failure[OF h1 h2[unfolded R_def] h3[unfolded R_def] h4]
  have "fst R = (Sprint (StatusCode resp), Some (errors_New (StatusText P (StatusCode resp))))"
    unfolding R_def using nr by simp
  with v have "fst R = (''404'', Some (errors_New ''Not Found''))" by simp
  with h1 h3 k3 exhausted show ?thesis
    unfolding R_def P_def resp_def S_def Q_def busy_def by simp
qed

text \<open>
  The claim as stated fails for a 500 that remains when the retries are spent: the result
  is not the status code with its status text.
\<close>

theorem doRequest_exhausted_500_counterexample:
  "snd (last (exchanges (snd (doRequest (scenario (\<lambda>w req. plain 500))
        w0 pa0 ''https://api.plan.toggl.com/api/v5/me'' ''GET'' [] [] None)))) =
     Response \<lparr>StatusCode = 500, Body = Inr ''ok'', RetryAfter = None\<rparr> \<and>
   fst (doRequest (scenario (\<lambda>w req. plain 500))
        w0 pa0 ''https://api.plan.toggl.com/api/v5/me'' ''GET'' [] [] None) =
     (''Error running request'', Some (giving_up 6 None)) \<and>
   fst (doRequest (scenario (\<lambda>w req. plain 500))
        w0 pa0 ''https://api.plan.toggl.com/api/v5/me'' ''GET'' [] [] None) \<noteq>
     (Sprint 500, Some (errors_New (StatusText (scenario (\<lambda>w req. plain 500)) 500)))"
  by code_simp

lemma pow2_below_five:
  "k < 5 \<Longrightarrow> (1::int) \<le> 2 ^ k \<and> (2::int) ^ k \<le> 16"
proof -
  assume "k < 5"
  then consider "k = 0" | "k = 1" | "k = 2" | "k = 3" | "k = 4" by linarith
  then show ?thesis by cases simp_all
qed

text \<open>
  C9 (as amended). The wait slept after attempt number \<open>k\<close> (from 0), when that attempt
  is retried, is \<^verbatim>\<open>DefaultBackoff\<close>'s: the duration of the \<^verbatim>\<open>Retry-After\<close> header when
  the attempt ended in a 429 or 503 response that carries a readable one (whatever that
  duration is), and otherwise \<open>2 ^ k\<close> seconds, which lies between 1 second and 30 seconds
  (it is at most 16 seconds, since at most five retries are made).
\<close>

theorem doRequest_backoff:
  assumes ok: "NewRequest_error P method url = None"
    and xs: "exchanges (snd (doRequest P w pa url method body headers auth)) = exchanges w @ xs"
    and k: "Suc k < length xs"
  shows "slept (snd (doRequest P w pa url method body headers auth)) ! (length (slept w) + k) =
       (case snd (xs ! k) of
          Failed err \<Rightarrow> 2 ^ k * Second
        | Response resp \<Rightarrow>
            (case (if StatusCode resp = 429 \<or> StatusCode resp = 503 then RetryAfter resp else None) of
               Some sleep \<Rightarrow> sleep
             | None \<Rightarrow> 2 ^ k * Second)) \<and>
     1 * Second \<le> 2 ^ k * Second \<and> 2 ^ k * Second \<le> 30 * Second"
proof -
  from k have k': "k < length xs" by simp
  from doRequest_retry_iff[OF ok xs k'] k have k5: "k < 5" by simp
  from pow2_below_five[OF k5] have p: "(1::int) \<le> 2 ^ k" "(2::int) ^ k \<le> 16" by simp_all
  have b: "1 * Second \<le> 2 ^ k * Second" "2 ^ k * Second \<le> 30 * Second"
    using p by (simp_all add: Second_def)
  have "slept (snd (doRequest P w pa url method body headers auth)) ! (length (slept w) + k) =
      DefaultBackoff (1 * Second) (30 * Second) (int k) (snd (xs ! k))"
  proof -
    from k have "k < length xs - 1" by simp
    then show ?thesis
      by (simp add: doRequest_attempts(3)[OF ok xs] nth_append)
  qed
  also have "\<dots> = (case snd (xs ! k) of
          Failed err \<Rightarrow> 2 ^ k * Second
        | Response resp \<Rightarrow>
            (case (if StatusCode resp = 429 \<or> StatusCode resp = 503 then RetryAfter resp else None) of
               Some sleep \<Rightarrow> sleep
             | None \<Rightarrow> 2 ^ k * Second))"
    using b by (simp add: DefaultBackoff_def Let_def split: outcome.splits option.splits)
  finally show ?thesis using b by simp
qed

theorem doRequest_backoff_witness:
  "NewRequest_error (scenario (scripted [plain 500, plain 500, plain 200] (plain 200)))
     ''GET'' ''https://api.plan.toggl.com/api/v5/me'' = None \<and>
   Suc 1 < length (exchanges (snd (doRequest (scenario (scripted [plain 500, plain 500, plain 200] (plain 200)))
        w0 pa0 ''https://api.plan.toggl.com/api/v5/me'' ''GET'' [] [] None))) \<and>
   slept (snd (doRequest (scenario (scripted [plain 500, plain 500, plain 200] (plain 200)))
        w0 pa0 ''https://api.plan.toggl.com/api/v5/me'' ''GET'' [] [] None)) ! 1 = 2 * Second"
proof -
  define P where "P = scenario (scripted [plain 500, plain 500, plain 200] (plain 200))"
  define R where "R = doRequest P w0 pa0 ''https://api.plan.toggl.com/api/v5/me'' ''GET'' [] [] None"
  have h1: "NewRequest_error P ''GET'' ''https://api.plan.toggl.com/api/v5/me'' = None"
    by (simp add: P_def scenario_def)
  have h2: "exchanges (snd R) = exchanges w0 @ exchanges (snd R)"
    by (simp add: w0_def)
  have h3: "Suc 1 < length (exchanges (snd R))"
    unfolding R_def P_def by code_simp
  have o: "snd (exchanges (snd R) ! Suc 0) = plain 500"
    unfolding R_def P_def by code_simp
  have z: "length (slept w0) = 0"
    by (simp add: w0_def)
  from doRequest_backoff[OF h1 h2[unfolded R_def] h3[unfolded R_def]]
  have "slept (snd R) ! (length (slept w0) + 1) =
       (case snd (exchanges (snd R) ! 1) of
          Failed err \<Rightarrow> 2 ^ 1 * Second
        | Response resp \<Rightarrow>
            (case (if StatusCode resp = 429 \<or> StatusCode resp = 503 then RetryAfter resp else None) of
               Some sleep \<Rightarrow> sleep
             | None \<Rightarrow> 2 ^ 1 * Second))"
    unfolding R_def by (elim conjE)
  then have "slept (snd R) ! Suc 0 = 2 * Second"
    by (simp add: o z plain_def)
  with h1 h3 show ?thesis unfolding R_def P_def by simp
qed

text \<open>
  The claim as stated fails when a 429 carries \<^verbatim>\<open>Retry-After: 120\<close>: the wait is 120
  seconds, above the 30 seconds.
\<close>

theorem doRequest_retry_after_counterexample:
  "slept (snd (doRequest
      (scenario (scripted
         [Response \<lparr>StatusCode = 429, Body = Inr [], RetryAfter = Some (120 * Second)\<rparr>]
         (plain 200)))
      w0 pa0 ''https://api.plan.toggl.com/api/v5/me'' ''GET'' [] [] None)) = [120 * Second] \<and>
   30 * Second < 120 * Second"
  by code_simp

subsection \<open>Token acquisition and the authenticated request\<close>

lemma doRequest_requests:
  assumes xs: "exchanges (snd (doRequest P w pa url method body headers auth)) = exchanges w @ xs"
    and e: "e \<in> set xs"
  shows "fst e =
          built_request P url method body headers auth"
proof (cases "NewRequest_error P method url")
  case None
  from e obtain k where k: "k < length xs" "e = xs ! k"
    by (auto simp: in_set_conv_nth)
  from doRequest_attempts(2)[OF None xs] k(1) show ?thesis
    unfolding k(2) by blast
next
  case (Some err)
  then have "snd (doRequest P w pa url method body headers auth) = w"
    by (simp add: doRequest_rejected)
  with xs e show ?thesis by simp
qed

lemma added_append: "exchanges w' = exchanges w @ xs \<Longrightarrow> added w w' = xs"
  by (simp add: added_def)

lemma token_call_extends: "\<exists>xs. exchanges (snd (token_call P w pa)) = exchanges w @ xs"
  unfolding token_call_def by (rule doRequest_extends)

lemma api_call_extends:
  "\<exists>xs. exchanges (snd (api_call P w pa url method body headers)) = exchanges w @ xs"
  unfolding api_call_def by (rule doRequest_extends)

lemma token_call_requests:
  assumes "e \<in> set (added w (snd (token_call P w pa)))"
  shows "fst e = token_request P pa"
proof -
  obtain xs where xs: "exchanges (snd (token_call P w pa)) = exchanges w @ xs"
    using token_call_extends by blast
  with assms have e: "e \<in> set xs" by (simp add: added_append)
  from doRequest_requests[OF xs[unfolded token_call_def] e]
  show ?thesis by (simp add: token_request_def)
qed

lemma api_call_requests:
  assumes "e \<in> set (added w (snd (api_call P w pa url method body headers)))"
  shows "fst e = api_request P pa url method body headers"
proof -
  obtain xs where xs: "exchanges (snd (api_call P w pa url method body headers)) = exchanges w @ xs"
    using api_call_extends by blast
  with assms have e: "e \<in> set xs" by (simp add: added_append)
  from doRequest_requests[OF xs[unfolded api_call_def] e]
  show ?thesis by (simp add: api_request_def)
qed

lemma getToken_eq:
  "getToken P w pa =
     (case token_call P w pa of
        ((result, None), w') \<Rightarrow>
          (case Unmarshal P result \<lparr>AccessToken = ''''\<rparr> of
             (Some err, tokenResponse) \<Rightarrow>
               ((''Couldn't parse authentication attempt response'', Some err), w')
           | (None, tokenResponse) \<Rightarrow>
               if AccessToken tokenResponse = ''''
               then (('''', Some (errors_New ''access_token not found in response'')), w')
               else ((AccessToken tokenResponse, None), w'))
      | ((result, Some err), w') \<Rightarrow> ((''Couldn't request for a new bearer token'', Some err), w'))"
  by (simp add: getToken_def token_call_def Let_def)

lemma getToken_world: "snd (getToken P w pa) = snd (token_call P w pa)"
  by (simp add: getToken_eq split: prod.splits option.splits)

lemma getToken_token_nonempty:
  "getToken P w pa = ((tok, None), w1) \<Longrightarrow> tok \<noteq> ''''"
  by (auto simp: getToken_eq split: prod.splits option.splits if_splits)

lemma Request_eq:
  "Request P w pa url method body headers =
     (if bearerToken pa = ''''
      then (case getToken P w pa of
              ((tok, None), w1) \<Rightarrow>
                (fst (api_call P w1 (pa\<lparr>bearerToken := tok\<rparr>) url method body headers),
                 pa\<lparr>bearerToken := tok\<rparr>,
                 snd (api_call P w1 (pa\<lparr>bearerToken := tok\<rparr>) url method body headers))
            | ((msg, Some err), w1) \<Rightarrow> ((''Couldn't authenticate'', Some err), pa, w1))
      else (fst (api_call P w pa url method body headers), pa,
            snd (api_call P w pa url method body headers)))"
  by (simp add: Request_def api_call_def Let_def split: prod.splits option.splits)

lemma canonical_Authorization: "CanonicalMIMEHeaderKey ''Authorization'' = ''Authorization''"
  by code_simp

lemma canonical_Content_Type: "CanonicalMIMEHeaderKey ''Content-Type'' = ''Content-Type''"
  by code_simp

lemma fold_Header_Set:
  "fold (\<lambda>(headerKey, headerValue) req. Header_Set req headerKey headerValue) xs req =
     req\<lparr>req_Header :=
       fold (\<lambda>(headerKey, headerValue) h. h(CanonicalMIMEHeaderKey headerKey \<mapsto> headerValue)) xs
         (req_Header req)\<rparr>"
  by (induction xs arbitrary: req) (auto simp: Header_Set_def)

lemma built_request_eq:
  "built_request P url method body headers auth =
     \<lparr>req_method = (if method = '''' then ''GET'' else method), req_url = url, req_body = body,
      req_Header =
        (let h = fold (\<lambda>(headerKey, headerValue) h. h(CanonicalMIMEHeaderKey headerKey \<mapsto> headerValue))
                   (RangeOrder P headers) Map.empty
         in case auth of
              None \<Rightarrow> h
            | Some a \<Rightarrow> h(''Authorization'' \<mapsto> Type a @ '' '' @ Credential a))\<rparr>"
  unfolding built_request_def Let_def fold_Header_Set
  by (simp add: Header_Set_def canonical_Authorization split: option.splits)

lemma built_request_fields:
  "req_method (built_request P url method body headers auth) = (if method = '''' then ''GET'' else method)"
  "req_url (built_request P url method body headers auth) = url"
  "req_body (built_request P url method body headers auth) = body"
  "req_authorization (built_request P url method body headers (Some a)) =
     Some (Type a @ '' '' @ Credential a)"
  by (simp_all add: built_request_eq req_authorization_def)



lemma getToken_extends: "\<exists>xs. exchanges (snd (getToken P w pa)) = exchanges w @ xs"
  by (simp only: getToken_world token_call_extends)

lemma getToken_requests:
  "e \<in> set (added w (snd (getToken P w pa))) \<Longrightarrow> fst e = token_request P pa"
  by (simp only: getToken_world token_call_requests)

lemma api_request_not_token_request:
  "api_request P pa url method body headers \<noteq> token_request P pa'"
proof
  assume "api_request P pa url method body headers = token_request P pa'"
  then have "req_authorization (api_request P pa url method body headers) =
      req_authorization (token_request P pa')"
    by simp
  then show False
    by (simp add: api_request_def token_request_def built_request_fields)
qed

text \<open>
  C3. For a client whose cached token is empty, \<^verbatim>\<open>Request\<close> first runs \<^verbatim>\<open>getToken\<close>.
  If that succeeds with a token, the token is stored in the client and the requested call
  is made after the token fetch, in the world the fetch left, with \<^verbatim>\<open>Bearer\<close> and that
  token. If it fails, \<^verbatim>\<open>Request\<close> returns \<^verbatim>\<open>Couldn't authenticate\<close> with the error of
  \<^verbatim>\<open>getToken\<close>, the client is unchanged (its token is still empty) and the world is the
  one \<^verbatim>\<open>getToken\<close> left: every attempt made is a token request, none is the requested
  call.
\<close>

theorem Request_without_token:
  assumes "bearerToken pa = ''''"
  shows "(case getToken P w pa of
            ((tok, None), w1) \<Rightarrow>
              Request P w pa url method body headers =
                (fst (api_call P w1 (pa\<lparr>bearerToken := tok\<rparr>) url method body headers),
                 pa\<lparr>bearerToken := tok\<rparr>,
                 snd (api_call P w1 (pa\<lparr>bearerToken := tok\<rparr>) url method body headers)) \<and>
              (\<forall>e \<in> set (added w1 (snd (snd (Request P w pa url method body headers)))).
                 req_url (fst e) = url \<and>
                 req_method (fst e) = (if method = '''' then ''GET'' else method) \<and>
                 req_authorization (fst e) = Some (''Bearer '' @ tok))
          | ((msg, Some err), w1) \<Rightarrow>
              Request P w pa url method body headers = ((''Couldn't authenticate'', Some err), pa, w1) \<and>
              bearerToken (fst (snd (Request P w pa url method body headers))) = '''') \<and>
         (\<forall>e \<in> set (added w (snd (getToken P w pa))). fst e = token_request P pa)"
proof -
  obtain r err w1 where g: "getToken P w pa = ((r, err), w1)"
    by (metis prod.exhaust)
  have tokreq: "\<forall>e \<in> set (added w (snd (getToken P w pa))). fst e = token_request P pa"
    using getToken_requests by blast
  show ?thesis
  proof (cases err)
    case None
    have eq: "Request P w pa url method body headers =
        (fst (api_call P w1 (pa\<lparr>bearerToken := r\<rparr>) url method body headers),
         pa\<lparr>bearerToken := r\<rparr>,
         snd (api_call P w1 (pa\<lparr>bearerToken := r\<rparr>) url method body headers))"
      using assms g None by (simp add: Request_eq)
    have "req_url (fst e) = url \<and>
                 req_method (fst e) = (if method = '''' then ''GET'' else method) \<and>
        req_authorization (fst e) = Some (''Bearer '' @ r)"
      if "e \<in> set (added w1 (snd (snd (Request P w pa url method body headers))))" for e
    proof -
      from that have "e \<in> set (added w1 (snd (api_call P w1 (pa\<lparr>bearerToken := r\<rparr>) url method body headers)))"
        by (simp add: eq)
      from api_call_requests[OF this] show ?thesis
        by (simp add: api_request_def built_request_fields)
    qed
    with eq tokreq show ?thesis
      by (simp add: g None)
  next
    case (Some a)
    have "Request P w pa url method body headers = ((''Couldn't authenticate'', Some a), pa, w1)"
      using assms g Some by (simp add: Request_eq)
    with assms tokreq show ?thesis
      by (simp add: g Some)
  qed
qed

theorem Request_without_token_witness:
  "bearerToken pa0 = '''' \<and>
   fst (Request (scenario (scripted [json_reply ''{\"access_token\":\"T\"}''] (plain 200))) w0 pa0
     ''https://api.plan.toggl.com/api/v5/me'' ''GET'' [] []) = (''ok'', None) \<and>
   bearerToken (fst (snd (Request (scenario (scripted [json_reply ''{\"access_token\":\"T\"}''] (plain 200)))
     w0 pa0 ''https://api.plan.toggl.com/api/v5/me'' ''GET'' [] []))) = ''T'' \<and>
   fst (Request (scenario (\<lambda>w req. plain 401)) w0 pa0
     ''https://api.plan.toggl.com/api/v5/me'' ''GET'' [] []) =
     (''Couldn't authenticate'', Some (errors_New ''401'')) \<and>
   bearerToken (fst (snd (Request (scenario (\<lambda>w req. plain 401)) w0 pa0
     ''https://api.plan.toggl.com/api/v5/me'' ''GET'' [] []))) = '''' \<and>
   length (exchanges (snd (snd (Request (scenario (\<lambda>w req. plain 401)) w0 pa0
     ''https://api.plan.toggl.com/api/v5/me'' ''GET'' [] [])))) = 1"
proof -
  define P where "P = scenario (scripted [json_reply ''{\"access_token\":\"T\"}''] (plain 200))"
  define Q where "Q = scenario (\<lambda>w req. plain 401)"
  define url where "url = ''https://api.plan.toggl.com/api/v5/me''"
  have e: "bearerToken pa0 = ''''"
    by (simp add: pa0_def New_def)
  obtain t terr w1 where gp: "getToken P w0 pa0 = ((t, terr), w1)"
    by (metis prod.exhaust)
  have "fst (getToken P w0 pa0) = (''T'', None)"
    unfolding P_def by code_simp
  with gp have gp': "t = ''T''" "terr = None" by simp_all
  from Request_without_token[OF e, of P w0 url "''GET''" "[]" "[]"]
  have rp: "Request P w0 pa0 url ''GET'' [] [] =
      (fst (api_call P w1 (pa0\<lparr>bearerToken := ''T''\<rparr>) url ''GET'' [] []),
       pa0\<lparr>bearerToken := ''T''\<rparr>,
       snd (api_call P w1 (pa0\<lparr>bearerToken := ''T''\<rparr>) url ''GET'' [] []))"
    by (simp add: gp gp')
  then have p2: "bearerToken (fst (snd (Request P w0 pa0 url ''GET'' [] []))) = ''T''"
    by simp
  have p1: "fst (Request P w0 pa0 url ''GET'' [] []) = (''ok'', None)"
    unfolding P_def url_def by code_simp
  obtain m merr w2 where gq: "getToken Q w0 pa0 = ((m, merr), w2)"
    by (metis prod.exhaust)
  have "snd (fst (getToken Q w0 pa0)) = Some (errors_New ''401'')"
    unfolding Q_def by code_simp
  with gq have gq': "merr = Some (errors_New ''401'')" by simp
  from Request_without_token[OF e, of Q w0 url "''GET''" "[]" "[]"]
  have rq: "Request Q w0 pa0 url ''GET'' [] [] =
      ((''Couldn't authenticate'', Some (errors_New ''401'')), pa0, w2)"
    by (simp add: gq gq')
  then have q1: "fst (Request Q w0 pa0 url ''GET'' [] []) =
      (''Couldn't authenticate'', Some (errors_New ''401''))"
    and q2: "bearerToken (fst (snd (Request Q w0 pa0 url ''GET'' [] []))) = ''''"
    using e by simp_all
  have q3: "length (exchanges (snd (snd (Request Q w0 pa0 url ''GET'' [] [])))) = 1"
    unfolding Q_def url_def by code_simp
  from e p1 p2 q1 q2 q3 show ?thesis
    unfolding P_def Q_def url_def by simp
qed

lemma Request_client:
  "fst (snd (Request P w pa url method body headers)) =
     (if bearerToken pa = '''' \<and> snd (fst (getToken P w pa)) = None
      then pa\<lparr>bearerToken := fst (fst (getToken P w pa))\<rparr>
      else pa)"
  by (simp add: Request_eq split: prod.splits option.splits)

lemma getToken_success_nonempty:
  "snd (fst (getToken P w pa)) = None \<Longrightarrow> fst (fst (getToken P w pa)) \<noteq> ''''"
  using getToken_token_nonempty[of P w pa "fst (fst (getToken P w pa))" "snd (getToken P w pa)"]
  by (metis prod.collapse)

text \<open>
  C7. For a client whose cached token is not empty, \<^verbatim>\<open>Request\<close> is the requested call
  alone, made with \<^verbatim>\<open>Bearer\<close> and the cached token: no attempt it makes is a token
  request, and the client, token included, is returned unchanged. A non-empty token is
  never emptied by \<^verbatim>\<open>Request\<close>, and an empty token becomes non-empty only when
  \<^verbatim>\<open>getToken\<close> succeeds, with the token it returned.
\<close>

theorem Request_with_token:
  "(bearerToken pa \<noteq> '''' \<longrightarrow>
      Request P w pa url method body headers =
        (fst (api_call P w pa url method body headers), pa,
         snd (api_call P w pa url method body headers)) \<and>
      (\<forall>e \<in> set (added w (snd (snd (Request P w pa url method body headers)))).
         fst e \<noteq> token_request P pa \<and>
         req_authorization (fst e) = Some (''Bearer '' @ bearerToken pa)) \<and>
      bearerToken (fst (snd (Request P w pa url method body headers))) = bearerToken pa) \<and>
   (bearerToken pa = '''' \<and> bearerToken (fst (snd (Request P w pa url method body headers))) \<noteq> '''' \<longrightarrow>
      fst (getToken P w pa) = (bearerToken (fst (snd (Request P w pa url method body headers))), None))"
proof (intro conjI impI)
  assume t: "bearerToken pa \<noteq> ''''"
  then show eq: "Request P w pa url method body headers =
        (fst (api_call P w pa url method body headers), pa,
         snd (api_call P w pa url method body headers))"
    by (simp add: Request_eq)
  show "\<forall>e \<in> set (added w (snd (snd (Request P w pa url method body headers)))).
         fst e \<noteq> token_request P pa \<and>
         req_authorization (fst e) = Some (''Bearer '' @ bearerToken pa)"
  proof
    fix e assume "e \<in> set (added w (snd (snd (Request P w pa url method body headers))))"
    then have "e \<in> set (added w (snd (api_call P w pa url method body headers)))"
      by (simp add: eq)
    from api_call_requests[OF this]
    have e: "fst e = api_request P pa url method body headers" .
    then show "fst e \<noteq> token_request P pa \<and>
         req_authorization (fst e) = Some (''Bearer '' @ bearerToken pa)"
      by (simp add: api_request_not_token_request) (simp add: api_request_def built_request_fields)
  qed
  show "bearerToken (fst (snd (Request P w pa url method body headers))) = bearerToken pa"
    by (simp add: eq)
next
  assume a: "bearerToken pa = '''' \<and>
    bearerToken (fst (snd (Request P w pa url method body headers))) \<noteq> ''''"
  then have ok: "snd (fst (getToken P w pa)) = None"
    by (auto simp: Request_client split: if_splits)
  with a have "bearerToken (fst (snd (Request P w pa url method body headers))) =
      fst (fst (getToken P w pa))"
    by (simp add: Request_client)
  with ok show "fst (getToken P w pa) =
      (bearerToken (fst (snd (Request P w pa url method body headers))), None)"
    by (metis prod.collapse)
qed

theorem Request_with_token_witness:
  "bearerToken (pa0\<lparr>bearerToken := ''T''\<rparr>) \<noteq> '''' \<and>
   fst (snd (Request (scenario (\<lambda>w req. plain 200)) w0 (pa0\<lparr>bearerToken := ''T''\<rparr>)
     ''https://api.plan.toggl.com/api/v5/me'' ''GET'' [] [])) = pa0\<lparr>bearerToken := ''T''\<rparr> \<and>
   length (added w0 (snd (snd (Request (scenario (\<lambda>w req. plain 200)) w0 (pa0\<lparr>bearerToken := ''T''\<rparr>)
     ''https://api.plan.toggl.com/api/v5/me'' ''GET'' [] [])))) = 1 \<and>
   req_authorization (fst (hd (added w0 (snd (snd (Request (scenario (\<lambda>w req. plain 200)) w0
     (pa0\<lparr>bearerToken := ''T''\<rparr>) ''https://api.plan.toggl.com/api/v5/me'' ''GET'' [] []))))))
     = Some ''Bearer T'' \<and>
   bearerToken pa0 = '''' \<and>
   bearerToken (fst (snd (Request (scenario (scripted [json_reply ''{\"access_token\":\"T\"}''] (plain 200)))
     w0 pa0 ''https://api.plan.toggl.com/api/v5/me'' ''GET'' [] []))) = ''T'' \<and>
   fst (getToken (scenario (scripted [json_reply ''{\"access_token\":\"T\"}''] (plain 200))) w0 pa0) =
     (''T'', None)"
proof -
  define Q where "Q = scenario (scripted [json_reply ''{\"access_token\":\"T\"}''] (plain 200))"
  define pb where "pb = fst (snd (Request Q w0 pa0 ''https://api.plan.toggl.com/api/v5/me'' ''GET'' [] []))"
  have n1: "bearerToken pa0 = ''''"
    by (simp add: pa0_def New_def)
  have n2: "bearerToken pb = ''T''"
    unfolding pb_def Q_def by code_simp
  then have n3: "bearerToken pb \<noteq> ''''"
    by simp
  from Request_with_token[of pa0 Q w0 "''https://api.plan.toggl.com/api/v5/me''" "''GET''" "[]" "[]"]
    n1 n3
  have "fst (getToken Q w0 pa0) = (bearerToken pb, None)"
    unfolding pb_def by blast
  with n2 have n4: "fst (getToken Q w0 pa0) = (''T'', None)"
    by simp
  define P where "P = scenario (\<lambda>w req. plain 200)"
  define pa where "pa = pa0\<lparr>bearerToken := ''T''\<rparr>"
  define url where "url = ''https://api.plan.toggl.com/api/v5/me''"
  define W where "W = snd (snd (Request P w0 pa url ''GET'' [] []))"
  have t: "bearerToken pa \<noteq> ''''" "bearerToken pa = ''T''"
    by (simp_all add: pa_def)
  have len: "length (added w0 W) = 1"
    unfolding W_def P_def pa_def url_def by code_simp
  then have mem: "hd (added w0 W) \<in> set (added w0 W)"
    by (cases "added w0 W") simp_all
  note T = Request_with_token[of pa P w0 url "''GET''" "[]" "[]"]
  from T t(1) have c: "fst (snd (Request P w0 pa url ''GET'' [] [])) = pa"
    by simp
  from T t(1) mem have "req_authorization (fst (hd (added w0 W))) = Some (''Bearer '' @ bearerToken pa)"
    unfolding W_def by blast
  then have a: "req_authorization (fst (hd (added w0 W))) = Some ''Bearer T''"
    by (simp add: t(2))
  from t(1) c len a n1 n2 n4 show ?thesis
    unfolding W_def P_def pa_def url_def pb_def Q_def by simp
qed

text \<open>
  C10. \<^verbatim>\<open>Request\<close> never changes the client's username, password, client id or client
  secret. It changes the cached token in one case only: the token was empty and
  \<^verbatim>\<open>getToken\<close> succeeded; then the token becomes the fetched one, which is not empty and
  is what \<^verbatim>\<open>GetToken\<close> returns afterwards. In every other case the client is returned
  as it was.
\<close>

theorem Request_frame:
  "username (fst (snd (Request P w pa url method body headers))) = username pa \<and>
   password (fst (snd (Request P w pa url method body headers))) = password pa \<and>
   clientId (fst (snd (Request P w pa url method body headers))) = clientId pa \<and>
   clientSecret (fst (snd (Request P w pa url method body headers))) = clientSecret pa \<and>
   (if bearerToken pa = '''' \<and> snd (fst (getToken P w pa)) = None
    then bearerToken (fst (snd (Request P w pa url method body headers))) = fst (fst (getToken P w pa)) \<and>
         bearerToken (fst (snd (Request P w pa url method body headers))) \<noteq> '''' \<and>
         GetToken (fst (snd (Request P w pa url method body headers))) = fst (fst (getToken P w pa))
    else fst (snd (Request P w pa url method body headers)) = pa)"
proof (cases "bearerToken pa = '''' \<and> snd (fst (getToken P w pa)) = None")
  case True
  then have "fst (fst (getToken P w pa)) \<noteq> ''''"
    by (simp add: getToken_success_nonempty)
  with True show ?thesis
    by (simp add: Request_client GetToken_def)
next
  case False
  then have "fst (snd (Request P w pa url method body headers)) = pa"
    by (simp only: Request_client if_False)
  with False show ?thesis
    by simp
qed

theorem Request_frame_witness:
  "fst (snd (Request (scenario (scripted [json_reply ''{\"access_token\":\"T\"}''] (plain 200))) w0 pa0
     ''https://api.plan.toggl.com/api/v5/me'' ''GET'' [] [])) = pa0\<lparr>bearerToken := ''T''\<rparr> \<and>
   GetToken (fst (snd (Request (scenario (scripted [json_reply ''{\"access_token\":\"T\"}''] (plain 200)))
     w0 pa0 ''https://api.plan.toggl.com/api/v5/me'' ''GET'' [] []))) = ''T'' \<and>
   fst (snd (Request (scenario (\<lambda>w req. plain 401)) w0 pa0
     ''https://api.plan.toggl.com/api/v5/me'' ''GET'' [] [])) = pa0"
proof -
  define P where "P = scenario (scripted [json_reply ''{\"access_token\":\"T\"}''] (plain 200))"
  define Q where "Q = scenario (\<lambda>w req. plain 401)"
  define url where "url = ''https://api.plan.toggl.com/api/v5/me''"
  define pa where "pa = fst (snd (Request P w0 pa0 url ''GET'' [] []))"
  have e: "bearerToken pa0 = ''''"
    by (simp add: pa0_def New_def)
  have gp: "fst (getToken P w0 pa0) = (''T'', None)"
    unfolding P_def by code_simp
  have gq: "snd (fst (getToken Q w0 pa0)) = Some (errors_New ''401'')"
    unfolding Q_def by code_simp
  from Request_frame[of P w0 pa0 url "''GET''" "[]" "[]"] e gp
  have p: "username pa = username pa0" "password pa = password pa0" "clientId pa = clientId pa0"
    "clientSecret pa = clientSecret pa0" "bearerToken pa = ''T''" "GetToken pa = ''T''"
    unfolding pa_def by simp_all
  then have p': "pa = pa0\<lparr>bearerToken := ''T''\<rparr>"
    by (cases pa, cases pa0) simp
  from Request_frame[of Q w0 pa0 url "''GET''" "[]" "[]"] gq
  have q: "fst (snd (Request Q w0 pa0 url ''GET'' [] [])) = pa0"
    by simp
  from p' p(6) q show ?thesis
    unfolding pa_def P_def Q_def url_def by simp
qed

subsection \<open>Merged headers\<close>



lemma distinct_fold_update:
  "distinct (map fst al) \<Longrightarrow>
   distinct (map fst (fold (\<lambda>(key, value) mergedMap. AList.update key value mergedMap) xs al))"
  by (induction xs arbitrary: al) (auto simp: distinct_update)

lemma mergeMaps_distinct: "distinct (map fst (mergeMaps map_1 map_2))"
  by (simp add: mergeMaps_def distinct_fold_update)











subsection \<open>Decoding the token response\<close>

lemma object_no_token:
  "\<not> list_ex (\<lambda>(key, v). selects_access_token key \<and>
        (case v of JString s \<Rightarrow> s \<noteq> '''' | _ \<Rightarrow> False)) members \<Longrightarrow>
   AccessToken v = '''' \<Longrightarrow>
   AccessToken (snd (object members (savedError, v))) = ''''"
proof (induction members arbitrary: savedError v)
  case Nil
  then show ?case by simp
next
  case (Cons m members)
  obtain key item where m: "m = (key, item)" by (cases m)
  from Cons.prems(1) have rest: "\<not> list_ex (\<lambda>(key, v). selects_access_token key \<and>
        (case v of JString s \<Rightarrow> s \<noteq> '''' | _ \<Rightarrow> False)) members"
    by simp
  show ?case
  proof (cases "selects_access_token key")
    case False
    then show ?thesis
      using Cons.IH[OF rest Cons.prems(2)] by (simp add: m)
  next
    case True
    show ?thesis
    proof (cases item)
      case (JString s)
      with True Cons.prems(1) have "s = ''''" by (simp add: m)
      then have "AccessToken (v\<lparr>AccessToken := s\<rparr>) = ''''" by simp
      from Cons.IH[OF rest this] show ?thesis
        using True JString by (simp add: m)
    qed (use True Cons.IH[OF rest Cons.prems(2)] in \<open>simp_all add: m\<close>)
  qed
qed

lemma Unmarshal_no_token:
  assumes "(\<exists>err. ParseJSON P data = Inl err) \<or>
           (\<exists>item. ParseJSON P data = Inr item \<and> \<not> holds_token item)"
  shows "fst (Unmarshal P data \<lparr>AccessToken = ''''\<rparr>) \<noteq> None \<or>
         AccessToken (snd (Unmarshal P data \<lparr>AccessToken = ''''\<rparr>)) = ''''"
  using assms
proof
  assume "\<exists>err. ParseJSON P data = Inl err"
  then show ?thesis by (auto simp: Unmarshal_def)
next
  assume "\<exists>item. ParseJSON P data = Inr item \<and> \<not> holds_token item"
  then obtain item where item: "ParseJSON P data = Inr item" "\<not> holds_token item"
    by blast
  show ?thesis
  proof (cases item)
    case (JObject members)
    with item(2) have "\<not> list_ex (\<lambda>(key, v). selects_access_token key \<and>
        (case v of JString s \<Rightarrow> s \<noteq> '''' | _ \<Rightarrow> False)) members"
      by (simp add: holds_token_def)
    from object_no_token[OF this, of "\<lparr>AccessToken = ''''\<rparr>" None]
    show ?thesis by (simp add: Unmarshal_def item(1) JObject)
  qed (simp_all add: Unmarshal_def item(1))
qed

text \<open>
  C5 (as amended). When the token fetch is answered with a body that is not JSON, or
  whose JSON value is not an object with a non-empty string under a key that equals
  \<^verbatim>\<open>access_token\<close> up to the case of its letters, \<^verbatim>\<open>getToken\<close> returns an error (the
  decoder's, or \<^verbatim>\<open>access_token not found in response\<close>), and \<^verbatim>\<open>Request\<close> on a client
  without a token returns \<^verbatim>\<open>Couldn't authenticate\<close> with that error and leaves the
  client as it was, its token still empty.
\<close>

theorem getToken_unusable_body:
  assumes tc: "token_call P w pa = ((result, None), w1)"
    and bad: "(\<exists>err. ParseJSON P result = Inl err) \<or>
              (\<exists>item. ParseJSON P result = Inr item \<and> \<not> holds_token item)"
    and empty: "bearerToken pa = ''''"
  shows "getToken P w pa =
           (case fst (Unmarshal P result \<lparr>AccessToken = ''''\<rparr>) of
              Some err \<Rightarrow> ((''Couldn't parse authentication attempt response'', Some err), w1)
            | None \<Rightarrow> (('''', Some (errors_New ''access_token not found in response'')), w1)) \<and>
         snd (fst (getToken P w pa)) \<noteq> None \<and>
         Request P w pa url method body headers =
           ((''Couldn't authenticate'', snd (fst (getToken P w pa))), pa, w1) \<and>
         bearerToken (fst (snd (Request P w pa url method body headers))) = ''''"
proof -
  obtain e tr where u: "Unmarshal P result \<lparr>AccessToken = ''''\<rparr> = (e, tr)"
    by (cases "Unmarshal P result \<lparr>AccessToken = ''''\<rparr>")
  from Unmarshal_no_token[OF bad] u have no: "e \<noteq> None \<or> AccessToken tr = ''''"
    by simp
  have g: "getToken P w pa =
           (case e of
              Some err \<Rightarrow> ((''Couldn't parse authentication attempt response'', Some err), w1)
            | None \<Rightarrow> (('''', Some (errors_New ''access_token not found in response'')), w1))"
    using no by (auto simp: getToken_eq tc u split: option.splits)
  then have f: "snd (fst (getToken P w pa)) \<noteq> None"
    by (simp split: option.splits)
  then obtain err where err: "snd (fst (getToken P w pa)) = Some err"
    by blast
  obtain msg w' where gw: "getToken P w pa = ((msg, Some err), w')"
    using err by (metis prod.collapse)
  with g have w': "w' = w1"
    by (simp split: option.splits)
  have r: "Request P w pa url method body headers =
      ((''Couldn't authenticate'', snd (fst (getToken P w pa))), pa, w1)"
    using empty gw w' by (simp add: Request_eq)
  from g f r empty show ?thesis
    by (simp add: u)
qed

theorem getToken_unusable_body_witness:
  "fst (token_call (scenario (\<lambda>w req. json_reply ''{}'')) w0 pa0) = (''{}'', None) \<and>
   ParseJSON (scenario (\<lambda>w req. json_reply ''{}'')) ''{}'' = Inr (JObject []) \<and>
   \<not> holds_token (JObject []) \<and>
   bearerToken pa0 = '''' \<and>
   fst (getToken (scenario (\<lambda>w req. json_reply ''{}'')) w0 pa0) =
     ('''', Some (errors_New ''access_token not found in response'')) \<and>
   fst (Request (scenario (\<lambda>w req. json_reply ''{}'')) w0 pa0
     ''https://api.plan.toggl.com/api/v5/me'' ''GET'' [] []) =
     (''Couldn't authenticate'', Some (errors_New ''access_token not found in response'')) \<and>
   bearerToken (fst (snd (Request (scenario (\<lambda>w req. json_reply ''{}'')) w0 pa0
     ''https://api.plan.toggl.com/api/v5/me'' ''GET'' [] []))) = '''' \<and>
   fst (getToken (scenario (\<lambda>w req. json_reply ''not json'')) w0 pa0) =
     (''Couldn't parse authentication attempt response'', Some (external ''invalid character 'o' in literal null (expecting 'u')'')) \<and>
   fst (getToken (scenario (\<lambda>w req. json_reply ''{\"access_token\":5}'')) w0 pa0) =
     (''Couldn't parse authentication attempt response'', Some (UnmarshalTypeError (JNumber ''5'')))"
proof -
  define P where "P = scenario (\<lambda>w req. json_reply ''{}'')"
  define Q where "Q = scenario (\<lambda>w req. json_reply ''not json'')"
  define N where "N = scenario (\<lambda>w req. json_reply ''{\"access_token\":5}'')"
  define url where "url = ''https://api.plan.toggl.com/api/v5/me''"
  have e: "bearerToken pa0 = ''''"
    by (simp add: pa0_def New_def)
  have f: "fst (token_call P w0 pa0) = (''{}'', None)"
    unfolding P_def by code_simp
  then have tc: "token_call P w0 pa0 = ((''{}'', None), snd (token_call P w0 pa0))"
    by (metis prod.collapse)
  have u: "ParseJSON P ''{}'' = Inr (JObject [])"
    by (simp add: P_def scenario_def)
  have h: "\<not> holds_token (JObject [])"
    by (simp add: holds_token_def)
  have bad: "(\<exists>err. ParseJSON P ''{}'' = Inl err) \<or>
      (\<exists>item. ParseJSON P ''{}'' = Inr item \<and> \<not> holds_token item)"
    using u h by simp
  have up: "fst (Unmarshal P ''{}'' \<lparr>AccessToken = ''''\<rparr>) = None"
    by (simp add: Unmarshal_def u)
  note T = getToken_unusable_body[OF tc bad e, of url "''GET''" "[]" "[]"]
  from conjunct1[OF T] up
  have g: "getToken P w0 pa0 =
      (('''', Some (errors_New ''access_token not found in response'')), snd (token_call P w0 pa0))"
    by simp
  from conjunct1[OF conjunct2[OF conjunct2[OF T]]] g
  have r: "fst (Request P w0 pa0 url ''GET'' [] []) =
      (''Couldn't authenticate'', Some (errors_New ''access_token not found in response''))"
    by simp
  note b = conjunct2[OF conjunct2[OF conjunct2[OF T]]]
  have fq: "fst (token_call Q w0 pa0) = (''not json'', None)"
    unfolding Q_def by code_simp
  then have tq: "token_call Q w0 pa0 = ((''not json'', None), snd (token_call Q w0 pa0))"
    by (metis prod.collapse)
  have uq: "ParseJSON Q ''not json'' = Inl (external ''invalid character 'o' in literal null (expecting 'u')'')"
    by (simp add: Q_def scenario_def)
  then have badq: "(\<exists>err. ParseJSON Q ''not json'' = Inl err) \<or>
      (\<exists>item. ParseJSON Q ''not json'' = Inr item \<and> \<not> holds_token item)"
    by simp
  have uq': "fst (Unmarshal Q ''not json'' \<lparr>AccessToken = ''''\<rparr>) = Some (external ''invalid character 'o' in literal null (expecting 'u')'')"
    by (simp add: Unmarshal_def uq)
  from conjunct1[OF getToken_unusable_body[OF tq badq e, of url "''GET''" "[]" "[]"]] uq'
  have gq: "fst (getToken Q w0 pa0) =
      (''Couldn't parse authentication attempt response'', Some (external ''invalid character 'o' in literal null (expecting 'u')''))"
    by simp
  have fn: "fst (token_call N w0 pa0) = (''{\"access_token\":5}'', None)"
    unfolding N_def by code_simp
  then have tn: "token_call N w0 pa0 = ((''{\"access_token\":5}'', None), snd (token_call N w0 pa0))"
    by (metis prod.collapse)
  have un: "ParseJSON N ''{\"access_token\":5}'' = Inr (JObject [(''access_token'', JNumber ''5'')])"
    by (simp add: N_def scenario_def)
  have hn: "\<not> holds_token (JObject [(''access_token'', JNumber ''5'')])"
    by (simp add: holds_token_def)
  have badn: "(\<exists>err. ParseJSON N ''{\"access_token\":5}'' = Inl err) \<or>
      (\<exists>item. ParseJSON N ''{\"access_token\":5}'' = Inr item \<and> \<not> holds_token item)"
    using un hn by simp
  have un': "fst (Unmarshal N ''{\"access_token\":5}'' \<lparr>AccessToken = ''''\<rparr>) =
      Some (UnmarshalTypeError (JNumber ''5''))"
    unfolding N_def by code_simp
  from conjunct1[OF getToken_unusable_body[OF tn badn e, of url "''GET''" "[]" "[]"]] un'
  have gn: "fst (getToken N w0 pa0) =
      (''Couldn't parse authentication attempt response'', Some (UnmarshalTypeError (JNumber ''5'')))"
    by simp
  from f u h e g r b gq gn show ?thesis
    unfolding P_def Q_def N_def url_def by simp
qed

text \<open>
  The claim as stated fails for the body \<^verbatim>\<open>{"ACCESS_TOKEN":"T"}\<close>: its JSON has no member
  \<^verbatim>\<open>access_token\<close>, yet the decoder takes the member for the field, \<^verbatim>\<open>getToken\<close>
  succeeds with \<^verbatim>\<open>T\<close>, and \<^verbatim>\<open>Request\<close> caches it.
\<close>

theorem getToken_key_case_counterexample:
  "ParseJSON (scenario (scripted [json_reply ''{\"ACCESS_TOKEN\":\"T\"}''] (plain 200)))
     ''{\"ACCESS_TOKEN\":\"T\"}'' = Inr (JObject [(''ACCESS_TOKEN'', JString ''T'')]) \<and>
   map_of [(''ACCESS_TOKEN'', JString ''T'')] ''access_token'' = None \<and>
   fst (getToken (scenario (scripted [json_reply ''{\"ACCESS_TOKEN\":\"T\"}''] (plain 200))) w0 pa0) =
     (''T'', None) \<and>
   bearerToken (fst (snd (Request (scenario (scripted [json_reply ''{\"ACCESS_TOKEN\":\"T\"}''] (plain 200)))
     w0 pa0 ''https://api.plan.toggl.com/api/v5/me'' ''GET'' [] []))) = ''T''"
  by code_simp

subsection \<open>The token request\<close>

lemma token_request_eq:
  assumes "mset (RangeOrder P [(''Content-Type'', ''application/x-www-form-urlencoded'')]) =
           mset [(''Content-Type'', ''application/x-www-form-urlencoded'')]"
  shows "token_request P pa =
     \<lparr>req_method = ''POST'',
      req_url = ''https://api.plan.toggl.com/api/v5/authenticate/token'',
      req_body = ''grant_type=password&username='' @ username pa @ ''&password='' @ password pa,
      req_Header =
        [''Content-Type'' \<mapsto> ''application/x-www-form-urlencoded'',
         ''Authorization'' \<mapsto> ''Basic '' @ EncodeToString P (clientId pa @ '':'' @ clientSecret pa)]\<rparr>"
proof -
  have "RangeOrder P [(''Content-Type'', ''application/x-www-form-urlencoded'')] =
      [(''Content-Type'', ''application/x-www-form-urlencoded'')]"
    using assms by simp
  then show ?thesis
    by (simp add: token_request_def built_request_eq canonical_Content_Type)
qed

text \<open>
  C6. Every attempt of \<^verbatim>\<open>getToken\<close> is the token request, whose body is the plain
  concatenation of line 193. For a client whose password is \<^verbatim>\<open>p&username=admin\<close> that
  body, read as the \<^verbatim>\<open>application/x-www-form-urlencoded\<close> text its
  \<^verbatim>\<open>Content-Type\<close> announces, has the password \<^verbatim>\<open>p\<close> and a second user name
  \<^verbatim>\<open>admin\<close>: it does not carry the client's password.
\<close>

theorem getToken_unescaped_body:
  "req_method (fst (hd (exchanges (snd (getToken (scenario (\<lambda>w req. plain 401)) w0
      (New ''user'' ''p&username=admin'' ''id'' ''secret'' '''')))))) = ''POST'' \<and>
   req_body (fst (hd (exchanges (snd (getToken (scenario (\<lambda>w req. plain 401)) w0
      (New ''user'' ''p&username=admin'' ''id'' ''secret'' '''')))))) =
     ''grant_type=password&username=user&password=p&username=admin'' \<and>
   req_Header (fst (hd (exchanges (snd (getToken (scenario (\<lambda>w req. plain 401)) w0
      (New ''user'' ''p&username=admin'' ''id'' ''secret'' '''')))))) ''Content-Type'' =
     Some ''application/x-www-form-urlencoded'' \<and>
   form_fields (req_body (fst (hd (exchanges (snd (getToken (scenario (\<lambda>w req. plain 401)) w0
      (New ''user'' ''p&username=admin'' ''id'' ''secret'' ''''))))))) =
     [(''grant_type'', ''password''), (''username'', ''user''), (''password'', ''p''),
      (''username'', ''admin'')] \<and>
   (''password'', ''p&username=admin'') \<notin> set (form_fields (req_body (fst (hd (exchanges (snd
      (getToken (scenario (\<lambda>w req. plain 401)) w0
         (New ''user'' ''p&username=admin'' ''id'' ''secret'' ''''))))))))"
  by code_simp

end
